theory Spec2Isabelle
  imports Complex_Main
begin

section \<open>OAuth2 credential records of \<^verbatim>\<open>spotipy/objects/token.py\<close>\<close>

text \<open>
  The module holds two classes, \<^verbatim>\<open>ClientCredentials\<close> and \<^verbatim>\<open>UserCredentials\<close>.
  Each wraps a token payload (a parsed JSON object), remembers when it was authorised,
  answers \<^verbatim>\<open>is_expired()\<close> and replaces its token fields in \<^verbatim>\<open>refresh\<close>.

  Conventions of the embedding:
  \<^item> a Python value that comes out of a JSON document is a \<open>json\<close>; Python's \<^verbatim>\<open>None\<close>
    is \<open>JNull\<close>;
  \<^item> a \<^verbatim>\<open>dict\<close> with string keys is a map \<open>string \<rightharpoonup> json\<close>;
  \<^item> \<^verbatim>\<open>time.time()\<close> is a parameter \<open>now\<close> of every operation that reads the clock;
    a finite Python \<^verbatim>\<open>float\<close> is the real number it stands for, and the subtraction of
    two floats rounds the exact difference as IEEE 754 binary64 does;
  \<^item> an exception is the \<open>Inl\<close> of a sum; a method is a function from the object to
    its outcome paired with the object as the call leaves it, so that a write made
    before an exception is raised stays visible;
  \<^item> the \<^verbatim>\<open>aiohttp\<close> session is a function from the URL and the form of a POST to
    the response, of which the HTTP status and the parsed body are kept; the parsed
    body is any JSON value, an object or not;
  \<^item> other code of the event loop runs only while a coroutine is suspended at an
    \<^verbatim>\<open>await\<close>, or after it has finished.
\<close>

subsection \<open>Python values\<close>

datatype json =
    JNull
  | JBool bool
  | JInt int
  | JFloat real
  | JStr string
  | JList "json list"
  | JObj "string \<Rightarrow> json option"

type_synonym dict = "string \<rightharpoonup> json"

text \<open>Truth value testing, as \<^verbatim>\<open>if v:\<close> does it.\<close>

primrec truthy :: "json \<Rightarrow> bool" where
  "truthy JNull = False"
| "truthy (JBool b) = b"
| "truthy (JInt n) = (n \<noteq> 0)"
| "truthy (JFloat r) = (r \<noteq> 0)"
| "truthy (JStr s) = (s \<noteq> [])"
| "truthy (JList vs) = (vs \<noteq> [])"
| "truthy (JObj d) = (d \<noteq> Map.empty)"

text \<open>\<^verbatim>\<open>d.get(k)\<close>: the value, or \<^verbatim>\<open>None\<close> for a missing key.\<close>

definition dict_get :: "dict \<Rightarrow> string \<Rightarrow> json" where
  "dict_get d k = (case d k of None \<Rightarrow> JNull | Some v \<Rightarrow> v)"

text \<open>
  The number a value stands for in a comparison with a \<^verbatim>\<open>float\<close>: \<^verbatim>\<open>int\<close>, \<^verbatim>\<open>float\<close>
  and \<^verbatim>\<open>bool\<close> (a subclass of \<^verbatim>\<open>int\<close>) are numbers, everything else is not.
\<close>

primrec num_of :: "json \<Rightarrow> real option" where
  "num_of JNull = None"
| "num_of (JBool b) = Some (if b then 1 else 0)"
| "num_of (JInt n) = Some (of_int n)"
| "num_of (JFloat r) = Some r"
| "num_of (JStr s) = None"
| "num_of (JList vs) = None"
| "num_of (JObj d) = None"

text \<open>
  Binary64 arithmetic. \<open>pow2 k\<close> is \<open>2\<^sup>k\<close>. A nonzero real \<open>x\<close> with
  \<open>2\<^sup>e \<le> \<bar>x\<bar> < 2\<^sup>e\<^sup>+\<^sup>1\<close> lies between neighbouring floats that are \<open>2\<^sup>e\<^sup>-\<^sup>5\<^sup>2\<close> apart
  (\<open>2\<^sup>-\<^sup>1\<^sup>0\<^sup>7\<^sup>4\<close> in the subnormal range); \<open>binary64 x\<close> is the nearer one, the one
  with the even significand on a tie. \<^verbatim>\<open>x - y\<close> on two finite floats is the exact
  difference rounded so, and an infinity when the rounded value is out of range.
\<close>

definition pow2 :: "int \<Rightarrow> real" where
  "pow2 k = (if 0 \<le> k then 2 ^ nat k else 1 / 2 ^ nat (- k))"

definition exponent :: "real \<Rightarrow> int" where
  "exponent x = \<lfloor>log 2 \<bar>x\<bar>\<rfloor>"

definition round_half_even :: "real \<Rightarrow> int" where
  "round_half_even y =
     (let f = \<lfloor>y\<rfloor>; r = y - of_int f
      in if r < 1 / 2 then f else if 1 / 2 < r then f + 1 else if even f then f else f + 1)"

definition binary64 :: "real \<Rightarrow> real" where
  "binary64 x =
     (if x = 0 then 0
      else let u = pow2 (max (exponent x) (- 1022) - 52)
           in of_int (round_half_even (x / u)) * u)"

datatype pyfloat = Finite real | PosInf | NegInf

definition float_sub :: "real \<Rightarrow> real \<Rightarrow> pyfloat" where
  "float_sub x y =
     (let r = binary64 (x - y)
      in if 2 ^ 1024 \<le> r then PosInf else if r \<le> - (2 ^ 1024) then NegInf else Finite r)"

subsection \<open>Responses and errors\<close>

record response =
  status :: int
  json_body :: json

type_synonym form = "(string \<times> json) list"

type_synonym session = "string \<Rightarrow> form \<Rightarrow> response"

text \<open>
  \<open>AuthenticationError\<close> is the exception the module imports and raises, with the
  response and the parsed body. \<open>KeyError\<close> is what \<^verbatim>\<open>data[k]\<close> raises for a missing
  key, \<open>TypeError\<close> what \<^verbatim>\<open>>=\<close> raises between a \<^verbatim>\<open>float\<close> and a value that is not a
  number, \<open>AttributeError\<close> what \<^verbatim>\<open>data.get\<close> raises on a value that is not a \<^verbatim>\<open>dict\<close>. \<open>ValidationError\<close> is the name the specification uses for a payload that
  lacks a field; no operation below produces it.
\<close>

datatype error =
    AuthenticationError response json
  | KeyError string
  | TypeError
  | AttributeError
  | ValidationError

text \<open>
  \<^verbatim>\<open>x >= v\<close> for a \<^verbatim>\<open>float\<close> \<open>x\<close>; Python compares a float with an \<^verbatim>\<open>int\<close> exactly.
\<close>

definition float_ge :: "pyfloat \<Rightarrow> json \<Rightarrow> error + bool" where
  "float_ge x v =
     (case num_of v of
        None \<Rightarrow> Inl TypeError
      | Some e \<Rightarrow> Inr (case x of Finite r \<Rightarrow> e \<le> r | PosInf \<Rightarrow> True | NegInf \<Rightarrow> False))"

definition is_AuthenticationError :: "error + 'a \<Rightarrow> bool" where
  "is_AuthenticationError r =
     (case r of Inl (AuthenticationError resp d) \<Rightarrow> True | _ \<Rightarrow> False)"

text \<open>
  The error check that follows \<^verbatim>\<open>data = await response.json()\<close> in all four
  operations:
  \<^verbatim>\<open>if data.get("error"): raise AuthenticationError(response, data=data)\<close>.
  Of the values a JSON document parses to, only a \<^verbatim>\<open>dict\<close> has a \<^verbatim>\<open>get\<close>. When the
  check passes, the body is a \<^verbatim>\<open>dict\<close>, which the subscripts after it read.
\<close>

definition error_check :: "response \<Rightarrow> json \<Rightarrow> error + dict" where
  "error_check response data =
     (case data of
        JObj d \<Rightarrow>
          if truthy (dict_get d ''error'') then Inl (AuthenticationError response data)
          else Inr d
      | _ \<Rightarrow> Inl AttributeError)"

text \<open>The parsed body is a JSON object; it is one that holds a truthy \<open>error\<close>.\<close>

definition is_object :: "json \<Rightarrow> bool" where
  "is_object data = (case data of JObj d \<Rightarrow> True | _ \<Rightarrow> False)"

definition has_truthy_error :: "json \<Rightarrow> bool" where
  "has_truthy_error data = (case data of JObj d \<Rightarrow> truthy (dict_get d ''error'') | _ \<Rightarrow> False)"

subsection \<open>ClientCredentials\<close>

record ClientCredentials =
  cc_access_token :: json
  cc_token_type :: json
  cc_expires_in :: json
  cc_client_id :: string
  cc_client_secret :: string
  cc_last_authorized_time :: real

definition ClientCredentials_TOKEN_URL :: string where
  "ClientCredentials_TOKEN_URL = ''https://accounts.spotify.com/api/token''"

text \<open>\<^verbatim>\<open>__init__\<close>: three subscripts in the source's order, then the clock.\<close>

definition ClientCredentials_init ::
    "dict \<Rightarrow> string \<Rightarrow> string \<Rightarrow> real \<Rightarrow> error + ClientCredentials" where
  "ClientCredentials_init data client_id client_secret now =
     (case data ''access_token'' of
        None \<Rightarrow> Inl (KeyError ''access_token'')
      | Some a \<Rightarrow>
     (case data ''token_type'' of
        None \<Rightarrow> Inl (KeyError ''token_type'')
      | Some t \<Rightarrow>
     (case data ''expires_in'' of
        None \<Rightarrow> Inl (KeyError ''expires_in'')
      | Some e \<Rightarrow>
          Inr \<lparr>cc_access_token = a, cc_token_type = t, cc_expires_in = e,
               cc_client_id = client_id, cc_client_secret = client_secret,
               cc_last_authorized_time = now\<rparr>)))"

text \<open>The read-only properties.\<close>

definition ClientCredentials_access_token :: "ClientCredentials \<Rightarrow> json" where
  "ClientCredentials_access_token self = cc_access_token self"

definition ClientCredentials_token_type :: "ClientCredentials \<Rightarrow> json" where
  "ClientCredentials_token_type self = cc_token_type self"

definition ClientCredentials_expires_in :: "ClientCredentials \<Rightarrow> json" where
  "ClientCredentials_expires_in self = cc_expires_in self"

definition ClientCredentials_is_expired ::
    "real \<Rightarrow> ClientCredentials \<Rightarrow> (error + bool) \<times> ClientCredentials" where
  "ClientCredentials_is_expired now self =
     (float_ge (float_sub now (cc_last_authorized_time self)) (ClientCredentials_expires_in self),
      self)"

text \<open>The form both client-credentials requests post.\<close>

definition client_credentials_form :: "string \<Rightarrow> string \<Rightarrow> form" where
  "client_credentials_form client_id client_secret =
     [(''grant_type'', JStr ''client_credentials''),
      (''client_id'', JStr client_id),
      (''client_secret'', JStr client_secret)]"

text \<open>
  \<^verbatim>\<open>refresh\<close>: the error check comes first; then each subscript is evaluated and
  stored before the next one is evaluated, so a missing key leaves the earlier writes
  in place.
\<close>

definition ClientCredentials_refresh ::
    "session \<Rightarrow> real \<Rightarrow> ClientCredentials \<Rightarrow> (error + unit) \<times> ClientCredentials" where
  "ClientCredentials_refresh session now self =
     (let response = session ClientCredentials_TOKEN_URL
                       (client_credentials_form (cc_client_id self) (cc_client_secret self));
          data = json_body response
      in case error_check response data of
           Inl err \<Rightarrow> (Inl err, self)
         | Inr d \<Rightarrow>
           (case d ''access_token'' of
              None \<Rightarrow> (Inl (KeyError ''access_token''), self)
            | Some a \<Rightarrow>
           (case d ''token_type'' of
              None \<Rightarrow> (Inl (KeyError ''token_type''), self\<lparr>cc_access_token := a\<rparr>)
            | Some t \<Rightarrow>
           (case d ''expires_in'' of
              None \<Rightarrow> (Inl (KeyError ''expires_in''),
                        self\<lparr>cc_access_token := a, cc_token_type := t\<rparr>)
            | Some e \<Rightarrow>
                (Inr (), self\<lparr>cc_access_token := a, cc_token_type := t, cc_expires_in := e,
                              cc_last_authorized_time := now\<rparr>)))))"

definition ClientCredentials_from_client_secret ::
    "string \<Rightarrow> string \<Rightarrow> session \<Rightarrow> real \<Rightarrow> error + ClientCredentials" where
  "ClientCredentials_from_client_secret client_id client_secret session now =
     (let response = session ClientCredentials_TOKEN_URL
                       (client_credentials_form client_id client_secret);
          data = json_body response
      in case error_check response data of
           Inl err \<Rightarrow> Inl err
         | Inr d \<Rightarrow> ClientCredentials_init d client_id client_secret now)"

subsection \<open>UserCredentials\<close>

record UserCredentials =
  uc_access_token :: json
  uc_token_type :: json
  uc_expires_in :: json
  uc_scope :: json
  uc_refresh_token :: json
  uc_client_id :: string
  uc_client_secret :: string
  uc_last_authorized_time :: real

definition UserCredentials_TOKEN_URL :: string where
  "UserCredentials_TOKEN_URL = ''https://accounts.spotify.com/api/token''"

text \<open>\<^verbatim>\<open>__init__\<close>: four subscripts, then \<^verbatim>\<open>data.get("refresh_token")\<close>.\<close>

definition UserCredentials_init ::
    "dict \<Rightarrow> string \<Rightarrow> string \<Rightarrow> real \<Rightarrow> error + UserCredentials" where
  "UserCredentials_init data client_id client_secret now =
     (case data ''access_token'' of
        None \<Rightarrow> Inl (KeyError ''access_token'')
      | Some a \<Rightarrow>
     (case data ''token_type'' of
        None \<Rightarrow> Inl (KeyError ''token_type'')
      | Some t \<Rightarrow>
     (case data ''expires_in'' of
        None \<Rightarrow> Inl (KeyError ''expires_in'')
      | Some e \<Rightarrow>
     (case data ''scope'' of
        None \<Rightarrow> Inl (KeyError ''scope'')
      | Some s \<Rightarrow>
          Inr \<lparr>uc_access_token = a, uc_token_type = t, uc_expires_in = e, uc_scope = s,
               uc_refresh_token = dict_get data ''refresh_token'',
               uc_client_id = client_id, uc_client_secret = client_secret,
               uc_last_authorized_time = now\<rparr>))))"

definition UserCredentials_access_token :: "UserCredentials \<Rightarrow> json" where
  "UserCredentials_access_token self = uc_access_token self"

definition UserCredentials_token_type :: "UserCredentials \<Rightarrow> json" where
  "UserCredentials_token_type self = uc_token_type self"

definition UserCredentials_scope :: "UserCredentials \<Rightarrow> json" where
  "UserCredentials_scope self = uc_scope self"

definition UserCredentials_expires_in :: "UserCredentials \<Rightarrow> json" where
  "UserCredentials_expires_in self = uc_expires_in self"

definition UserCredentials_is_expired ::
    "real \<Rightarrow> UserCredentials \<Rightarrow> (error + bool) \<times> UserCredentials" where
  "UserCredentials_is_expired now self =
     (float_ge (float_sub now (uc_last_authorized_time self)) (UserCredentials_expires_in self),
      self)"

text \<open>The form of \<^verbatim>\<open>refresh\<close>, and the form of \<^verbatim>\<open>from_refresh_token\<close> with its own key order.\<close>

definition refresh_token_form :: "json \<Rightarrow> string \<Rightarrow> string \<Rightarrow> form" where
  "refresh_token_form refresh_token client_id client_secret =
     [(''grant_type'', JStr ''refresh_token''),
      (''refresh_token'', refresh_token),
      (''client_id'', JStr client_id),
      (''client_secret'', JStr client_secret)]"

definition from_refresh_token_form :: "string \<Rightarrow> string \<Rightarrow> string \<Rightarrow> form" where
  "from_refresh_token_form client_id client_secret refresh_token =
     [(''client_id'', JStr client_id),
      (''client_secret'', JStr client_secret),
      (''grant_type'', JStr ''refresh_token''),
      (''refresh_token'', JStr refresh_token)]"

definition UserCredentials_refresh ::
    "session \<Rightarrow> real \<Rightarrow> UserCredentials \<Rightarrow> (error + unit) \<times> UserCredentials" where
  "UserCredentials_refresh session now self =
     (let response = session UserCredentials_TOKEN_URL
                       (refresh_token_form (uc_refresh_token self) (uc_client_id self)
                          (uc_client_secret self));
          data = json_body response
      in case error_check response data of
           Inl err \<Rightarrow> (Inl err, self)
         | Inr d \<Rightarrow>
           (case d ''access_token'' of
              None \<Rightarrow> (Inl (KeyError ''access_token''), self)
            | Some a \<Rightarrow>
           (case d ''token_type'' of
              None \<Rightarrow> (Inl (KeyError ''token_type''), self\<lparr>uc_access_token := a\<rparr>)
            | Some t \<Rightarrow>
           (case d ''scope'' of
              None \<Rightarrow> (Inl (KeyError ''scope''),
                        self\<lparr>uc_access_token := a, uc_token_type := t\<rparr>)
            | Some s \<Rightarrow>
           (case d ''expires_in'' of
              None \<Rightarrow> (Inl (KeyError ''expires_in''),
                        self\<lparr>uc_access_token := a, uc_token_type := t, uc_scope := s\<rparr>)
            | Some e \<Rightarrow>
                (Inr (), self\<lparr>uc_access_token := a, uc_token_type := t, uc_scope := s,
                              uc_expires_in := e, uc_last_authorized_time := now\<rparr>))))))"

definition UserCredentials_from_refresh_token ::
    "string \<Rightarrow> string \<Rightarrow> session \<Rightarrow> string \<Rightarrow> real \<Rightarrow> error + UserCredentials" where
  "UserCredentials_from_refresh_token client_id client_secret session refresh_token now =
     (let response = session UserCredentials_TOKEN_URL
                       (from_refresh_token_form client_id client_secret refresh_token);
          data = json_body response
      in case error_check response data of
           Inl err \<Rightarrow> Inl err
         | Inr d \<Rightarrow> UserCredentials_init (d(''refresh_token'' \<mapsto> JStr refresh_token))
                      client_id client_secret now)"

subsection \<open>The steps of refresh\<close>

text \<open>
  \<^verbatim>\<open>refresh\<close> once more, statement by statement, as the list of moments the object
  passes through. \<open>Suspended s\<close>: the coroutine waits at an \<^verbatim>\<open>await\<close> or has finished
  while the object is \<open>s\<close>, so other code can run and read the object. \<open>Running s\<close>:
  an assignment has just made the object \<open>s\<close> and the coroutine goes on without
  giving up control. The coroutine waits when it enters the \<^verbatim>\<open>async with\<close> block
  (the request is sent), at \<^verbatim>\<open>await response.json()\<close>, and when it leaves the block,
  by its end or by an exception (the response is released); between
  \<^verbatim>\<open>response.json()\<close> and the end of the block the source has no \<^verbatim>\<open>await\<close>.
\<close>

datatype 'a moment = Suspended 'a | Running 'a

definition ClientCredentials_refresh_steps ::
    "session \<Rightarrow> real \<Rightarrow> ClientCredentials \<Rightarrow> ClientCredentials moment list" where
  "ClientCredentials_refresh_steps session now self =
     (let response = session ClientCredentials_TOKEN_URL
                       (client_credentials_form (cc_client_id self) (cc_client_secret self));
          data = json_body response
      in Suspended self # Suspended self #
         (case error_check response data of
            Inl err \<Rightarrow> [Suspended self]
          | Inr d \<Rightarrow>
         (case d ''access_token'' of
            None \<Rightarrow> [Suspended self]
          | Some a \<Rightarrow> Running (self\<lparr>cc_access_token := a\<rparr>) #
         (case d ''token_type'' of
            None \<Rightarrow> [Suspended (self\<lparr>cc_access_token := a\<rparr>)]
          | Some t \<Rightarrow> Running (self\<lparr>cc_access_token := a, cc_token_type := t\<rparr>) #
         (case d ''expires_in'' of
            None \<Rightarrow> [Suspended (self\<lparr>cc_access_token := a, cc_token_type := t\<rparr>)]
          | Some e \<Rightarrow>
              [Running (self\<lparr>cc_access_token := a, cc_token_type := t, cc_expires_in := e\<rparr>),
               Running (self\<lparr>cc_access_token := a, cc_token_type := t, cc_expires_in := e,
                             cc_last_authorized_time := now\<rparr>),
               Suspended (self\<lparr>cc_access_token := a, cc_token_type := t, cc_expires_in := e,
                               cc_last_authorized_time := now\<rparr>)])))))"

definition UserCredentials_refresh_steps ::
    "session \<Rightarrow> real \<Rightarrow> UserCredentials \<Rightarrow> UserCredentials moment list" where
  "UserCredentials_refresh_steps session now self =
     (let response = session UserCredentials_TOKEN_URL
                       (refresh_token_form (uc_refresh_token self) (uc_client_id self)
                          (uc_client_secret self));
          data = json_body response
      in Suspended self # Suspended self #
         (case error_check response data of
            Inl err \<Rightarrow> [Suspended self]
          | Inr d \<Rightarrow>
         (case d ''access_token'' of
            None \<Rightarrow> [Suspended self]
          | Some a \<Rightarrow> Running (self\<lparr>uc_access_token := a\<rparr>) #
         (case d ''token_type'' of
            None \<Rightarrow> [Suspended (self\<lparr>uc_access_token := a\<rparr>)]
          | Some t \<Rightarrow> Running (self\<lparr>uc_access_token := a, uc_token_type := t\<rparr>) #
         (case d ''scope'' of
            None \<Rightarrow> [Suspended (self\<lparr>uc_access_token := a, uc_token_type := t\<rparr>)]
          | Some s \<Rightarrow>
              Running (self\<lparr>uc_access_token := a, uc_token_type := t, uc_scope := s\<rparr>) #
         (case d ''expires_in'' of
            None \<Rightarrow> [Suspended (self\<lparr>uc_access_token := a, uc_token_type := t, uc_scope := s\<rparr>)]
          | Some e \<Rightarrow>
              [Running (self\<lparr>uc_access_token := a, uc_token_type := t, uc_scope := s,
                             uc_expires_in := e\<rparr>),
               Running (self\<lparr>uc_access_token := a, uc_token_type := t, uc_scope := s,
                             uc_expires_in := e, uc_last_authorized_time := now\<rparr>),
               Suspended (self\<lparr>uc_access_token := a, uc_token_type := t, uc_scope := s,
                               uc_expires_in := e, uc_last_authorized_time := now\<rparr>)]))))))"

text \<open>The objects other code can see while \<^verbatim>\<open>refresh\<close> is under way or just over.\<close>

primrec suspended :: "'a moment list \<Rightarrow> 'a list" where
  "suspended [] = []"
| "suspended (m # ms) = (case m of Suspended s \<Rightarrow> s # suspended ms | Running s \<Rightarrow> suspended ms)"

subsection \<open>Sequences of calls on one object\<close>

text \<open>
  What a caller can do to an object it holds: ask \<^verbatim>\<open>is_expired()\<close> at some time, or
  \<^verbatim>\<open>refresh\<close> it through some session at some time. A run applies such calls in
  order and carries the object on whether a call returns or raises.
\<close>

datatype call = Is_expired real | Refresh session real

primrec ClientCredentials_call :: "call \<Rightarrow> ClientCredentials \<Rightarrow> ClientCredentials" where
  "ClientCredentials_call (Is_expired now) self = snd (ClientCredentials_is_expired now self)"
| "ClientCredentials_call (Refresh session now) self =
     snd (ClientCredentials_refresh session now self)"

primrec ClientCredentials_run :: "call list \<Rightarrow> ClientCredentials \<Rightarrow> ClientCredentials" where
  "ClientCredentials_run [] self = self"
| "ClientCredentials_run (c # cs) self = ClientCredentials_run cs (ClientCredentials_call c self)"

primrec UserCredentials_call :: "call \<Rightarrow> UserCredentials \<Rightarrow> UserCredentials" where
  "UserCredentials_call (Is_expired now) self = snd (UserCredentials_is_expired now self)"
| "UserCredentials_call (Refresh session now) self =
     snd (UserCredentials_refresh session now self)"

primrec UserCredentials_run :: "call list \<Rightarrow> UserCredentials \<Rightarrow> UserCredentials" where
  "UserCredentials_run [] self = self"
| "UserCredentials_run (c # cs) self = UserCredentials_run cs (UserCredentials_call c self)"

text \<open>The same session, with the HTTP status of every response replaced.\<close>

definition with_status :: "int \<Rightarrow> session \<Rightarrow> session" where
  "with_status code session = (\<lambda>url data. (session url data)\<lparr>status := code\<rparr>)"

subsection \<open>Concrete payloads and objects\<close>

definition invalid_grant :: dict where
  "invalid_grant = [''error'' \<mapsto> JStr ''invalid_grant'']"

definition client_payload :: dict where
  "client_payload =
     [''access_token'' \<mapsto> JStr ''AT1'', ''token_type'' \<mapsto> JStr ''Bearer'',
      ''expires_in'' \<mapsto> JInt 3600]"

definition user_payload :: dict where
  "user_payload =
     [''access_token'' \<mapsto> JStr ''AT2'', ''token_type'' \<mapsto> JStr ''Bearer'',
      ''expires_in'' \<mapsto> JInt 3600, ''scope'' \<mapsto> JStr ''user-read'']"

definition answering :: "int \<Rightarrow> json \<Rightarrow> session" where
  "answering code body = (\<lambda>url data. \<lparr>status = code, json_body = body\<rparr>)"

definition old_client :: ClientCredentials where
  "old_client =
     \<lparr>cc_access_token = JStr ''AT0'', cc_token_type = JStr ''Bearer'', cc_expires_in = JInt 60,
      cc_client_id = ''id'', cc_client_secret = ''secret'', cc_last_authorized_time = 100\<rparr>"

definition old_user :: UserCredentials where
  "old_user =
     \<lparr>uc_access_token = JStr ''AT0'', uc_token_type = JStr ''Bearer'', uc_expires_in = JInt 60,
      uc_scope = JStr ''user-read-private'', uc_refresh_token = JStr ''RT1'',
      uc_client_id = ''id'', uc_client_secret = ''secret'', uc_last_authorized_time = 100\<rparr>"

definition empty_error :: dict where
  "empty_error = [''error'' \<mapsto> JStr []]"

definition no_expiry_payload :: dict where
  "no_expiry_payload = [''access_token'' \<mapsto> JStr ''AT1'', ''token_type'' \<mapsto> JStr ''Bearer'']"

definition zero_lifetime_payload :: dict where
  "zero_lifetime_payload =
     [''access_token'' \<mapsto> JStr ''AT1'', ''token_type'' \<mapsto> JStr ''Bearer'',
      ''expires_in'' \<mapsto> JInt 0, ''scope'' \<mapsto> JStr ''user-read'']"

definition new_client :: ClientCredentials where
  "new_client =
     \<lparr>cc_access_token = JStr ''AT1'', cc_token_type = JStr ''Bearer'', cc_expires_in = JInt 3600,
      cc_client_id = ''id'', cc_client_secret = ''secret'', cc_last_authorized_time = 500\<rparr>"

definition new_user :: UserCredentials where
  "new_user =
     \<lparr>uc_access_token = JStr ''AT2'', uc_token_type = JStr ''Bearer'', uc_expires_in = JInt 3600,
      uc_scope = JStr ''user-read'', uc_refresh_token = JStr ''RT1'',
      uc_client_id = ''id'', uc_client_secret = ''secret'', uc_last_authorized_time = 500\<rparr>"

definition dead_client :: ClientCredentials where
  "dead_client =
     \<lparr>cc_access_token = JStr ''AT1'', cc_token_type = JStr ''Bearer'', cc_expires_in = JInt 0,
      cc_client_id = ''id'', cc_client_secret = ''secret'', cc_last_authorized_time = 500\<rparr>"

definition dead_user :: UserCredentials where
  "dead_user =
     \<lparr>uc_access_token = JStr ''AT1'', uc_token_type = JStr ''Bearer'', uc_expires_in = JInt 0,
      uc_scope = JStr ''user-read'', uc_refresh_token = JNull,
      uc_client_id = ''id'', uc_client_secret = ''secret'', uc_last_authorized_time = 500\<rparr>"

text \<open>
  Two clients made at clock value 1 whose lifetime sits next to a tie of the rounding:
  \<open>2\<^sup>5\<^sup>3 + 1\<close> is halfway between the floats \<open>2\<^sup>5\<^sup>3\<close> and \<open>2\<^sup>5\<^sup>3 + 2\<close>, and \<open>2\<^sup>5\<^sup>3 + 3\<close>
  halfway between \<open>2\<^sup>5\<^sup>3 + 2\<close> and \<open>2\<^sup>5\<^sup>3 + 4\<close>.
\<close>

definition tie_down_client :: ClientCredentials where
  "tie_down_client =
     \<lparr>cc_access_token = JStr ''AT1'', cc_token_type = JStr ''Bearer'',
      cc_expires_in = JInt 9007199254740993,
      cc_client_id = ''id'', cc_client_secret = ''secret'', cc_last_authorized_time = 1\<rparr>"

definition tie_up_client :: ClientCredentials where
  "tie_up_client =
     \<lparr>cc_access_token = JStr ''AT1'', cc_token_type = JStr ''Bearer'',
      cc_expires_in = JInt 9007199254740996,
      cc_client_id = ''id'', cc_client_secret = ''secret'', cc_last_authorized_time = 1\<rparr>"

definition tie_down_user :: UserCredentials where
  "tie_down_user =
     \<lparr>uc_access_token = JStr ''AT2'', uc_token_type = JStr ''Bearer'',
      uc_expires_in = JInt 9007199254740993, uc_scope = JStr ''user-read'',
      uc_refresh_token = JStr ''RT1'',
      uc_client_id = ''id'', uc_client_secret = ''secret'', uc_last_authorized_time = 1\<rparr>"

section \<open>Binary64 rounding\<close>

lemma pow2_powr: "pow2 k = 2 powr (of_int k)"
  by (simp add: pow2_def powr_real_of_int divide_inverse)

lemma pow2_pos: "0 < pow2 k"
  by (simp add: pow2_powr)

lemma exponent_eq:
  assumes "x \<noteq> 0" "pow2 k \<le> \<bar>x\<bar>" "\<bar>x\<bar> < pow2 (k + 1)"
  shows "exponent x = k"
  using assms floor_log_eq_powr_iff [of "\<bar>x\<bar>" 2 k]
  by (simp add: exponent_def pow2_powr)

text \<open>The rounding of a number whose binade is known.\<close>

lemma binary64_at:
  assumes "x \<noteq> 0" "pow2 k \<le> \<bar>x\<bar>" "\<bar>x\<bar> < pow2 (k + 1)" "- 1022 \<le> k"
  shows "binary64 x = of_int (round_half_even (x / pow2 (k - 52))) * pow2 (k - 52)"
  using assms exponent_eq [OF assms(1-3)]
  by (simp add: binary64_def Let_def max_def)

lemma round_half_even_nonneg: "0 \<le> y \<Longrightarrow> 0 \<le> round_half_even y"
  by (simp add: round_half_even_def Let_def)

lemma binary64_nonneg: "0 \<le> x \<Longrightarrow> 0 \<le> binary64 x"
  using pow2_pos [of "max (exponent x) (- 1022) - 52"]
  by (simp add: binary64_def Let_def round_half_even_nonneg less_imp_le)

lemma float_sub_same: "float_sub x x = Finite 0"
  by (simp add: float_sub_def binary64_def)

lemma float_sub_exact:
  "binary64 (x - y) = x - y \<Longrightarrow> \<bar>x - y\<bar> < 2 ^ 1024 \<Longrightarrow> float_sub x y = Finite (x - y)"
  by (simp add: float_sub_def Let_def abs_less_iff not_le)

lemma float_sub_nonneg:
  "y \<le> x \<Longrightarrow> float_sub x y = PosInf \<or> (\<exists>r. float_sub x y = Finite r \<and> 0 \<le> r)"
  using binary64_nonneg [of "x - y"]
  by (simp add: float_sub_def Let_def)

lemma binary64_59: "binary64 59 = 59"
  using binary64_at [of 59 5]
  by (simp add: pow2_def round_half_even_def Let_def)

lemma binary64_60: "binary64 60 = 60"
  using binary64_at [of 60 5]
  by (simp add: pow2_def round_half_even_def Let_def)

lemma binary64_tie_down: "binary64 9007199254740993 = 9007199254740992"
  using binary64_at [of 9007199254740993 53]
  by (simp add: pow2_def round_half_even_def Let_def)

lemma binary64_tie_up: "binary64 9007199254740995 = 9007199254740996"
  using binary64_at [of 9007199254740995 53]
  by (simp add: pow2_def round_half_even_def Let_def)

section \<open>Expiry\<close>

lemma float_ge_num:
  "num_of v = Some e \<Longrightarrow>
   float_ge x v = Inr (case x of Finite r \<Rightarrow> e \<le> r | PosInf \<Rightarrow> True | NegInf \<Rightarrow> False)"
  by (simp add: float_ge_def)

text \<open>
  C1 as the specification states it: \<open>is_expired()\<close> is true exactly when the current
  time minus \<open>last_authorized_time\<close> is at least \<open>expires_in\<close>. The source subtracts two
  floats, and the difference is rounded before it is compared. A client made at clock
  value 1 with a lifetime of \<open>2\<^sup>5\<^sup>3 + 1\<close> seconds and read at \<open>2\<^sup>5\<^sup>3 + 2\<close> has lived
  exactly its lifetime, but the float difference is \<open>2\<^sup>5\<^sup>3\<close> and \<open>is_expired()\<close> is
  false; the same for a user. A client with a lifetime of \<open>2\<^sup>5\<^sup>3 + 4\<close> seconds read
  at \<open>2\<^sup>5\<^sup>3 + 4\<close> has lived one second less than its lifetime, but the float
  difference is \<open>2\<^sup>5\<^sup>3 + 4\<close> and \<open>is_expired()\<close> is true.
\<close>

theorem is_expired_not_exact_difference:
  "ClientCredentials_init
     [''access_token'' \<mapsto> JStr ''AT1'', ''token_type'' \<mapsto> JStr ''Bearer'',
      ''expires_in'' \<mapsto> JInt 9007199254740993] ''id'' ''secret'' 1 = Inr tie_down_client \<and>
   num_of (cc_expires_in tie_down_client) = Some 9007199254740993 \<and>
   (9007199254740993 :: real) \<le> 9007199254740994 - cc_last_authorized_time tie_down_client \<and>
   ClientCredentials_is_expired 9007199254740994 tie_down_client = (Inr False, tie_down_client) \<and>
   num_of (uc_expires_in tie_down_user) = Some 9007199254740993 \<and>
   (9007199254740993 :: real) \<le> 9007199254740994 - uc_last_authorized_time tie_down_user \<and>
   UserCredentials_is_expired 9007199254740994 tie_down_user = (Inr False, tie_down_user) \<and>
   num_of (cc_expires_in tie_up_client) = Some 9007199254740996 \<and>
   \<not> (9007199254740996 :: real) \<le> 9007199254740996 - cc_last_authorized_time tie_up_client \<and>
   ClientCredentials_is_expired 9007199254740996 tie_up_client = (Inr True, tie_up_client)"
  by (simp add: ClientCredentials_init_def ClientCredentials_is_expired_def
      UserCredentials_is_expired_def ClientCredentials_expires_in_def
      UserCredentials_expires_in_def tie_down_client_def tie_down_user_def tie_up_client_def
      float_ge_def float_sub_def Let_def binary64_tie_down binary64_tie_up)

text \<open>
  C1, amended. For a record whose \<open>expires_in\<close> is a number \<open>e\<close>, \<open>is_expired()\<close> returns
  true exactly when the float difference of the current time and
  \<open>last_authorized_time\<close> (the exact difference rounded to binary64, to nearest with
  ties to even, an infinity when out of range) is at least \<open>e\<close>; whenever the exact
  difference is itself a finite binary64 number, that is exactly when the current time
  minus \<open>last_authorized_time\<close> is at least \<open>e\<close>. This holds for both classes, and the
  call leaves every record as it was, also when the comparison raises.
\<close>

theorem is_expired_iff:
  "(num_of (cc_expires_in c) = Some e \<longrightarrow>
      ClientCredentials_is_expired now c =
        (Inr (case float_sub now (cc_last_authorized_time c) of
                Finite d \<Rightarrow> e \<le> d | PosInf \<Rightarrow> True | NegInf \<Rightarrow> False), c)) \<and>
   (num_of (cc_expires_in c) = Some e \<and>
    binary64 (now - cc_last_authorized_time c) = now - cc_last_authorized_time c \<and>
    \<bar>now - cc_last_authorized_time c\<bar> < 2 ^ 1024 \<longrightarrow>
      ClientCredentials_is_expired now c = (Inr (e \<le> now - cc_last_authorized_time c), c)) \<and>
   (num_of (uc_expires_in u) = Some e' \<longrightarrow>
      UserCredentials_is_expired now u =
        (Inr (case float_sub now (uc_last_authorized_time u) of
                Finite d \<Rightarrow> e' \<le> d | PosInf \<Rightarrow> True | NegInf \<Rightarrow> False), u)) \<and>
   (num_of (uc_expires_in u) = Some e' \<and>
    binary64 (now - uc_last_authorized_time u) = now - uc_last_authorized_time u \<and>
    \<bar>now - uc_last_authorized_time u\<bar> < 2 ^ 1024 \<longrightarrow>
      UserCredentials_is_expired now u = (Inr (e' \<le> now - uc_last_authorized_time u), u)) \<and>
   snd (ClientCredentials_is_expired now c) = c \<and>
   snd (UserCredentials_is_expired now u) = u"
  by (simp add: ClientCredentials_is_expired_def UserCredentials_is_expired_def
      ClientCredentials_expires_in_def UserCredentials_expires_in_def float_ge_num
      float_sub_exact)

theorem is_expired_iff_witness:
  "ClientCredentials_is_expired 160 old_client = (Inr True, old_client) \<and>
   ClientCredentials_is_expired 159 old_client = (Inr False, old_client) \<and>
   UserCredentials_is_expired 160 old_user = (Inr True, old_user) \<and>
   UserCredentials_is_expired 159 old_user = (Inr False, old_user)"
  using is_expired_iff [of old_client 60 160 old_user 60]
    is_expired_iff [of old_client 60 159 old_user 60]
  by (simp add: old_client_def old_user_def binary64_59 binary64_60 float_sub_def Let_def)

section \<open>The error check\<close>

lemma error_check_object:
  "error_check r (JObj d) =
     (if truthy (dict_get d ''error'') then Inl (AuthenticationError r (JObj d)) else Inr d)"
  by (simp add: error_check_def)

lemma error_check_not_object: "\<not> is_object data \<Longrightarrow> error_check r data = Inl AttributeError"
  by (cases data) (simp_all add: error_check_def is_object_def)

lemma error_check_truthy:
  "has_truthy_error data \<Longrightarrow> error_check r data = Inl (AuthenticationError r data)"
  by (cases data) (simp_all add: error_check_def has_truthy_error_def)

lemma error_check_Inr:
  "error_check r data = Inr d \<Longrightarrow> data = JObj d \<and> \<not> truthy (dict_get d ''error'')"
  by (cases data) (simp_all add: error_check_def split: if_splits)

lemma error_check_Inl:
  "error_check r data = Inl e \<Longrightarrow>
   (has_truthy_error data \<and> e = AuthenticationError r data) \<or>
   (\<not> is_object data \<and> e = AttributeError)"
  by (cases data) (auto simp add: error_check_def has_truthy_error_def is_object_def
      split: if_splits)

lemma error_check_auth_iff: "is_AuthenticationError (error_check r data) = has_truthy_error data"
  by (cases data) (simp_all add: error_check_def has_truthy_error_def is_AuthenticationError_def)

lemma has_truthy_error_object: "has_truthy_error (JObj d) = truthy (dict_get d ''error'')"
  by (simp add: has_truthy_error_def)

lemma has_truthy_error_is_object: "has_truthy_error data \<Longrightarrow> is_object data"
  by (cases data) (simp_all add: has_truthy_error_def is_object_def)

lemma ClientCredentials_refresh_error:
  "has_truthy_error (json_body (session ClientCredentials_TOKEN_URL
      (client_credentials_form (cc_client_id c) (cc_client_secret c)))) \<Longrightarrow>
   ClientCredentials_refresh session now c =
     (Inl (AuthenticationError
        (session ClientCredentials_TOKEN_URL
          (client_credentials_form (cc_client_id c) (cc_client_secret c)))
        (json_body (session ClientCredentials_TOKEN_URL
          (client_credentials_form (cc_client_id c) (cc_client_secret c))))), c)"
  by (simp add: ClientCredentials_refresh_def Let_def error_check_truthy)

lemma ClientCredentials_refresh_not_object:
  "\<not> is_object (json_body (session ClientCredentials_TOKEN_URL
      (client_credentials_form (cc_client_id c) (cc_client_secret c)))) \<Longrightarrow>
   ClientCredentials_refresh session now c = (Inl AttributeError, c)"
  by (simp add: ClientCredentials_refresh_def Let_def error_check_not_object)

lemma ClientCredentials_refresh_object:
  "json_body (session ClientCredentials_TOKEN_URL
      (client_credentials_form (cc_client_id c) (cc_client_secret c))) = JObj d \<Longrightarrow>
   \<not> truthy (dict_get d ''error'') \<Longrightarrow>
   ClientCredentials_refresh session now c =
     (case d ''access_token'' of
        None \<Rightarrow> (Inl (KeyError ''access_token''), c)
      | Some a \<Rightarrow>
     (case d ''token_type'' of
        None \<Rightarrow> (Inl (KeyError ''token_type''), c\<lparr>cc_access_token := a\<rparr>)
      | Some t \<Rightarrow>
     (case d ''expires_in'' of
        None \<Rightarrow> (Inl (KeyError ''expires_in''), c\<lparr>cc_access_token := a, cc_token_type := t\<rparr>)
      | Some e \<Rightarrow>
          (Inr (), c\<lparr>cc_access_token := a, cc_token_type := t, cc_expires_in := e,
                    cc_last_authorized_time := now\<rparr>))))"
  by (simp add: ClientCredentials_refresh_def Let_def error_check_object)

lemma UserCredentials_refresh_error:
  "has_truthy_error (json_body (session UserCredentials_TOKEN_URL
      (refresh_token_form (uc_refresh_token u) (uc_client_id u) (uc_client_secret u)))) \<Longrightarrow>
   UserCredentials_refresh session now u =
     (Inl (AuthenticationError
        (session UserCredentials_TOKEN_URL
          (refresh_token_form (uc_refresh_token u) (uc_client_id u) (uc_client_secret u)))
        (json_body (session UserCredentials_TOKEN_URL
          (refresh_token_form (uc_refresh_token u) (uc_client_id u) (uc_client_secret u))))), u)"
  by (simp add: UserCredentials_refresh_def Let_def error_check_truthy)

lemma UserCredentials_refresh_not_object:
  "\<not> is_object (json_body (session UserCredentials_TOKEN_URL
      (refresh_token_form (uc_refresh_token u) (uc_client_id u) (uc_client_secret u)))) \<Longrightarrow>
   UserCredentials_refresh session now u = (Inl AttributeError, u)"
  by (simp add: UserCredentials_refresh_def Let_def error_check_not_object)

lemma UserCredentials_refresh_object:
  "json_body (session UserCredentials_TOKEN_URL
      (refresh_token_form (uc_refresh_token u) (uc_client_id u) (uc_client_secret u))) = JObj d \<Longrightarrow>
   \<not> truthy (dict_get d ''error'') \<Longrightarrow>
   UserCredentials_refresh session now u =
     (case d ''access_token'' of
        None \<Rightarrow> (Inl (KeyError ''access_token''), u)
      | Some a \<Rightarrow>
     (case d ''token_type'' of
        None \<Rightarrow> (Inl (KeyError ''token_type''), u\<lparr>uc_access_token := a\<rparr>)
      | Some t \<Rightarrow>
     (case d ''scope'' of
        None \<Rightarrow> (Inl (KeyError ''scope''), u\<lparr>uc_access_token := a, uc_token_type := t\<rparr>)
      | Some s \<Rightarrow>
     (case d ''expires_in'' of
        None \<Rightarrow> (Inl (KeyError ''expires_in''),
                  u\<lparr>uc_access_token := a, uc_token_type := t, uc_scope := s\<rparr>)
      | Some e \<Rightarrow>
          (Inr (), u\<lparr>uc_access_token := a, uc_token_type := t, uc_scope := s,
                    uc_expires_in := e, uc_last_authorized_time := now\<rparr>)))))"
  by (simp add: UserCredentials_refresh_def Let_def error_check_object)

lemma ClientCredentials_init_no_auth:
  "\<not> is_AuthenticationError (ClientCredentials_init data cid cs now)"
  by (simp add: ClientCredentials_init_def is_AuthenticationError_def split: option.splits)

lemma UserCredentials_init_no_auth:
  "\<not> is_AuthenticationError (UserCredentials_init data cid cs now)"
  by (simp add: UserCredentials_init_def is_AuthenticationError_def split: option.splits)

lemma from_client_secret_error:
  "has_truthy_error (json_body (session ClientCredentials_TOKEN_URL
      (client_credentials_form cid cs))) \<Longrightarrow>
   ClientCredentials_from_client_secret cid cs session now =
     Inl (AuthenticationError
        (session ClientCredentials_TOKEN_URL (client_credentials_form cid cs))
        (json_body (session ClientCredentials_TOKEN_URL (client_credentials_form cid cs))))"
  by (simp add: ClientCredentials_from_client_secret_def Let_def error_check_truthy)

lemma from_client_secret_not_object:
  "\<not> is_object (json_body (session ClientCredentials_TOKEN_URL
      (client_credentials_form cid cs))) \<Longrightarrow>
   ClientCredentials_from_client_secret cid cs session now = Inl AttributeError"
  by (simp add: ClientCredentials_from_client_secret_def Let_def error_check_not_object)

lemma from_client_secret_object:
  "json_body (session ClientCredentials_TOKEN_URL (client_credentials_form cid cs)) = JObj d \<Longrightarrow>
   \<not> truthy (dict_get d ''error'') \<Longrightarrow>
   ClientCredentials_from_client_secret cid cs session now = ClientCredentials_init d cid cs now"
  by (simp add: ClientCredentials_from_client_secret_def Let_def error_check_object)

lemma from_refresh_token_error:
  "has_truthy_error (json_body (session UserCredentials_TOKEN_URL
      (from_refresh_token_form cid cs rt))) \<Longrightarrow>
   UserCredentials_from_refresh_token cid cs session rt now =
     Inl (AuthenticationError
        (session UserCredentials_TOKEN_URL (from_refresh_token_form cid cs rt))
        (json_body (session UserCredentials_TOKEN_URL (from_refresh_token_form cid cs rt))))"
  by (simp add: UserCredentials_from_refresh_token_def Let_def error_check_truthy)

lemma from_refresh_token_not_object:
  "\<not> is_object (json_body (session UserCredentials_TOKEN_URL
      (from_refresh_token_form cid cs rt))) \<Longrightarrow>
   UserCredentials_from_refresh_token cid cs session rt now = Inl AttributeError"
  by (simp add: UserCredentials_from_refresh_token_def Let_def error_check_not_object)

lemma from_refresh_token_object:
  "json_body (session UserCredentials_TOKEN_URL (from_refresh_token_form cid cs rt)) = JObj d \<Longrightarrow>
   \<not> truthy (dict_get d ''error'') \<Longrightarrow>
   UserCredentials_from_refresh_token cid cs session rt now =
     UserCredentials_init (d(''refresh_token'' \<mapsto> JStr rt)) cid cs now"
  by (simp add: UserCredentials_from_refresh_token_def Let_def error_check_object)

text \<open>A factory that returns an object was answered with a JSON object without a truthy error.\<close>

lemma from_client_secret_Inr:
  assumes "ClientCredentials_from_client_secret cid cs session now = Inr c"
  shows "\<exists>d. json_body (session ClientCredentials_TOKEN_URL (client_credentials_form cid cs))
              = JObj d \<and> \<not> truthy (dict_get d ''error'') \<and>
            ClientCredentials_init d cid cs now = Inr c"
proof (cases "error_check (session ClientCredentials_TOKEN_URL (client_credentials_form cid cs))
    (json_body (session ClientCredentials_TOKEN_URL (client_credentials_form cid cs)))")
  case (Inl e)
  with assms show ?thesis
    by (simp add: ClientCredentials_from_client_secret_def Let_def)
next
  case (Inr d)
  with assms have "ClientCredentials_init d cid cs now = Inr c"
    by (simp add: ClientCredentials_from_client_secret_def Let_def)
  with error_check_Inr [OF Inr] show ?thesis by blast
qed

lemma from_refresh_token_Inr:
  assumes "UserCredentials_from_refresh_token cid cs session rt now = Inr u"
  shows "\<exists>d. json_body (session UserCredentials_TOKEN_URL (from_refresh_token_form cid cs rt))
              = JObj d \<and> \<not> truthy (dict_get d ''error'') \<and>
            UserCredentials_init (d(''refresh_token'' \<mapsto> JStr rt)) cid cs now = Inr u"
proof (cases "error_check (session UserCredentials_TOKEN_URL (from_refresh_token_form cid cs rt))
    (json_body (session UserCredentials_TOKEN_URL (from_refresh_token_form cid cs rt)))")
  case (Inl e)
  with assms show ?thesis
    by (simp add: UserCredentials_from_refresh_token_def Let_def)
next
  case (Inr d)
  with assms have "UserCredentials_init (d(''refresh_token'' \<mapsto> JStr rt)) cid cs now = Inr u"
    by (simp add: UserCredentials_from_refresh_token_def Let_def)
  with error_check_Inr [OF Inr] show ?thesis by blast
qed

lemma truthy_invalid_grant: "has_truthy_error (JObj invalid_grant)"
  by (simp add: has_truthy_error_def invalid_grant_def dict_get_def)

text \<open>
  C2. When the token endpoint answers with the body \<open>{"error": "invalid_grant"}\<close>,
  \<open>refresh\<close> of either class raises \<open>AuthenticationError\<close> (with the response and that
  body) and leaves the object equal to what it was, field for field; and both
  factories raise \<open>AuthenticationError\<close> on that answer.
\<close>

theorem invalid_grant_fails_unmodified:
  "(json_body (session ClientCredentials_TOKEN_URL
       (client_credentials_form (cc_client_id c) (cc_client_secret c))) = JObj invalid_grant \<longrightarrow>
      ClientCredentials_refresh session now c =
        (Inl (AuthenticationError
           (session ClientCredentials_TOKEN_URL
              (client_credentials_form (cc_client_id c) (cc_client_secret c)))
           (JObj invalid_grant)), c)) \<and>
   (json_body (session UserCredentials_TOKEN_URL
       (refresh_token_form (uc_refresh_token u) (uc_client_id u) (uc_client_secret u)))
         = JObj invalid_grant \<longrightarrow>
      UserCredentials_refresh session now u =
        (Inl (AuthenticationError
           (session UserCredentials_TOKEN_URL
              (refresh_token_form (uc_refresh_token u) (uc_client_id u) (uc_client_secret u)))
           (JObj invalid_grant)), u)) \<and>
   (json_body (session ClientCredentials_TOKEN_URL (client_credentials_form cid cs))
         = JObj invalid_grant \<longrightarrow>
      ClientCredentials_from_client_secret cid cs session now =
        Inl (AuthenticationError
           (session ClientCredentials_TOKEN_URL (client_credentials_form cid cs))
           (JObj invalid_grant))) \<and>
   (json_body (session UserCredentials_TOKEN_URL (from_refresh_token_form cid cs rt))
         = JObj invalid_grant \<longrightarrow>
      UserCredentials_from_refresh_token cid cs session rt now =
        Inl (AuthenticationError
           (session UserCredentials_TOKEN_URL (from_refresh_token_form cid cs rt))
           (JObj invalid_grant)))"
proof (intro conjI impI)
  assume b: "json_body (session ClientCredentials_TOKEN_URL
       (client_credentials_form (cc_client_id c) (cc_client_secret c))) = JObj invalid_grant"
  show "ClientCredentials_refresh session now c =
        (Inl (AuthenticationError
           (session ClientCredentials_TOKEN_URL
              (client_credentials_form (cc_client_id c) (cc_client_secret c)))
           (JObj invalid_grant)), c)"
    using ClientCredentials_refresh_error [of session c now] truthy_invalid_grant
    by (simp add: b)
next
  assume b: "json_body (session UserCredentials_TOKEN_URL
       (refresh_token_form (uc_refresh_token u) (uc_client_id u) (uc_client_secret u)))
         = JObj invalid_grant"
  show "UserCredentials_refresh session now u =
        (Inl (AuthenticationError
           (session UserCredentials_TOKEN_URL
              (refresh_token_form (uc_refresh_token u) (uc_client_id u) (uc_client_secret u)))
           (JObj invalid_grant)), u)"
    using UserCredentials_refresh_error [of session u now] truthy_invalid_grant
    by (simp add: b)
next
  assume b: "json_body (session ClientCredentials_TOKEN_URL (client_credentials_form cid cs))
         = JObj invalid_grant"
  show "ClientCredentials_from_client_secret cid cs session now =
        Inl (AuthenticationError
           (session ClientCredentials_TOKEN_URL (client_credentials_form cid cs))
           (JObj invalid_grant))"
    using from_client_secret_error [of session cid cs now] truthy_invalid_grant
    by (simp add: b)
next
  assume b: "json_body (session UserCredentials_TOKEN_URL (from_refresh_token_form cid cs rt))
         = JObj invalid_grant"
  show "UserCredentials_from_refresh_token cid cs session rt now =
        Inl (AuthenticationError
           (session UserCredentials_TOKEN_URL (from_refresh_token_form cid cs rt))
           (JObj invalid_grant))"
    using from_refresh_token_error [of session cid cs rt now] truthy_invalid_grant
    by (simp add: b)
qed

theorem invalid_grant_fails_unmodified_witness:
  "ClientCredentials_refresh (answering 400 (JObj invalid_grant)) 500 old_client =
     (Inl (AuthenticationError \<lparr>status = 400, json_body = JObj invalid_grant\<rparr>
        (JObj invalid_grant)), old_client) \<and>
   UserCredentials_refresh (answering 400 (JObj invalid_grant)) 500 old_user =
     (Inl (AuthenticationError \<lparr>status = 400, json_body = JObj invalid_grant\<rparr>
        (JObj invalid_grant)), old_user) \<and>
   ClientCredentials_from_client_secret ''id'' ''secret'' (answering 400 (JObj invalid_grant)) 500 =
     Inl (AuthenticationError \<lparr>status = 400, json_body = JObj invalid_grant\<rparr>
        (JObj invalid_grant)) \<and>
   UserCredentials_from_refresh_token ''id'' ''secret'' (answering 400 (JObj invalid_grant))
       ''RT1'' 500 =
     Inl (AuthenticationError \<lparr>status = 400, json_body = JObj invalid_grant\<rparr>
        (JObj invalid_grant))"
  using invalid_grant_fails_unmodified
    [where session = "answering 400 (JObj invalid_grant)" and c = old_client and u = old_user
      and cid = "''id''" and cs = "''secret''" and rt = "''RT1''" and now = 500]
  by (simp add: answering_def)

lemma ClientCredentials_refresh_auth_iff:
  "is_AuthenticationError (fst (ClientCredentials_refresh session now c)) =
   has_truthy_error (json_body (session ClientCredentials_TOKEN_URL
      (client_credentials_form (cc_client_id c) (cc_client_secret c))))"
proof -
  have "is_AuthenticationError (fst (ClientCredentials_refresh session now c)) =
    is_AuthenticationError (error_check
      (session ClientCredentials_TOKEN_URL
        (client_credentials_form (cc_client_id c) (cc_client_secret c)))
      (json_body (session ClientCredentials_TOKEN_URL
        (client_credentials_form (cc_client_id c) (cc_client_secret c)))))"
    by (simp add: ClientCredentials_refresh_def Let_def is_AuthenticationError_def
        split: sum.splits option.splits)
  then show ?thesis by (simp add: error_check_auth_iff)
qed

lemma UserCredentials_refresh_auth_iff:
  "is_AuthenticationError (fst (UserCredentials_refresh session now u)) =
   has_truthy_error (json_body (session UserCredentials_TOKEN_URL
      (refresh_token_form (uc_refresh_token u) (uc_client_id u) (uc_client_secret u))))"
proof -
  have "is_AuthenticationError (fst (UserCredentials_refresh session now u)) =
    is_AuthenticationError (error_check
      (session UserCredentials_TOKEN_URL
        (refresh_token_form (uc_refresh_token u) (uc_client_id u) (uc_client_secret u)))
      (json_body (session UserCredentials_TOKEN_URL
        (refresh_token_form (uc_refresh_token u) (uc_client_id u) (uc_client_secret u)))))"
    by (simp add: UserCredentials_refresh_def Let_def is_AuthenticationError_def
        split: sum.splits option.splits)
  then show ?thesis by (simp add: error_check_auth_iff)
qed

lemma from_client_secret_auth_iff:
  "is_AuthenticationError (ClientCredentials_from_client_secret cid cs session now) =
   has_truthy_error (json_body (session ClientCredentials_TOKEN_URL
      (client_credentials_form cid cs)))"
proof -
  have "is_AuthenticationError (ClientCredentials_from_client_secret cid cs session now) =
    is_AuthenticationError (error_check
      (session ClientCredentials_TOKEN_URL (client_credentials_form cid cs))
      (json_body (session ClientCredentials_TOKEN_URL (client_credentials_form cid cs))))"
    using ClientCredentials_init_no_auth
    by (simp add: ClientCredentials_from_client_secret_def Let_def split: sum.splits)
      (simp add: is_AuthenticationError_def)
  then show ?thesis by (simp add: error_check_auth_iff)
qed

lemma from_refresh_token_auth_iff:
  "is_AuthenticationError (UserCredentials_from_refresh_token cid cs session rt now) =
   has_truthy_error (json_body (session UserCredentials_TOKEN_URL
      (from_refresh_token_form cid cs rt)))"
proof -
  have "is_AuthenticationError (UserCredentials_from_refresh_token cid cs session rt now) =
    is_AuthenticationError (error_check
      (session UserCredentials_TOKEN_URL (from_refresh_token_form cid cs rt))
      (json_body (session UserCredentials_TOKEN_URL (from_refresh_token_form cid cs rt))))"
    using UserCredentials_init_no_auth
    by (simp add: UserCredentials_from_refresh_token_def Let_def split: sum.splits)
      (simp add: is_AuthenticationError_def)
  then show ?thesis by (simp add: error_check_auth_iff)
qed

text \<open>
  After the check has passed on a JSON object, any failure is a \<open>KeyError\<close> of a
  subscript.
\<close>

lemma ClientCredentials_init_error:
  "ClientCredentials_init data cid cs now = Inl e \<Longrightarrow> \<exists>k. e = KeyError k \<and> data k = None"
  by (auto simp add: ClientCredentials_init_def split: option.splits)

lemma UserCredentials_init_error:
  "UserCredentials_init data cid cs now = Inl e \<Longrightarrow> \<exists>k. e = KeyError k \<and> data k = None"
  by (auto simp add: UserCredentials_init_def split: option.splits)

lemma ClientCredentials_refresh_other_error:
  "json_body (session ClientCredentials_TOKEN_URL
      (client_credentials_form (cc_client_id c) (cc_client_secret c))) = JObj d \<Longrightarrow>
   \<not> truthy (dict_get d ''error'') \<Longrightarrow>
   fst (ClientCredentials_refresh session now c) = Inl e \<Longrightarrow>
   \<exists>k. e = KeyError k \<and> d k = None"
  using ClientCredentials_refresh_object [of session c d now]
  by (auto split: option.splits)

lemma UserCredentials_refresh_other_error:
  "json_body (session UserCredentials_TOKEN_URL
      (refresh_token_form (uc_refresh_token u) (uc_client_id u) (uc_client_secret u))) = JObj d \<Longrightarrow>
   \<not> truthy (dict_get d ''error'') \<Longrightarrow>
   fst (UserCredentials_refresh session now u) = Inl e \<Longrightarrow>
   \<exists>k. e = KeyError k \<and> d k = None"
  using UserCredentials_refresh_object [of session u d now]
  by (auto split: option.splits)

lemma from_client_secret_other_error:
  "json_body (session ClientCredentials_TOKEN_URL (client_credentials_form cid cs)) = JObj d \<Longrightarrow>
   \<not> truthy (dict_get d ''error'') \<Longrightarrow>
   ClientCredentials_from_client_secret cid cs session now = Inl e \<Longrightarrow>
   \<exists>k. e = KeyError k \<and> d k = None"
  using from_client_secret_object [of session cid cs d now] ClientCredentials_init_error
  by metis

lemma from_refresh_token_other_error:
  assumes b: "json_body (session UserCredentials_TOKEN_URL (from_refresh_token_form cid cs rt))
      = JObj d"
    and n: "\<not> truthy (dict_get d ''error'')"
    and f: "UserCredentials_from_refresh_token cid cs session rt now = Inl e"
  shows "\<exists>k. e = KeyError k \<and> d k = None"
proof -
  from f b n from_refresh_token_object [of session cid cs rt d now]
  have "UserCredentials_init (d(''refresh_token'' \<mapsto> JStr rt)) cid cs now = Inl e"
    by simp
  from UserCredentials_init_error [OF this]
  obtain k where k: "e = KeyError k" "(d(''refresh_token'' \<mapsto> JStr rt)) k = None"
    by blast
  then have "d k = None"
    by (simp split: if_splits)
  with k show ?thesis by blast
qed

lemma json_body_with_status:
  "json_body (with_status code session url data) = json_body (session url data)"
  by (simp add: with_status_def)

text \<open>
  C3 as the specification states it: for every response of the token endpoint the
  error check raises \<open>AuthenticationError\<close> or nothing. \<^verbatim>\<open>response.json()\<close> returns
  whatever JSON value the body holds, and the check calls \<^verbatim>\<open>data.get\<close> on it. On the
  body \<open>[]\<close> the check itself fails with \<open>AttributeError\<close>, in \<open>refresh\<close> of both
  classes and in both factories, before any field is read or written.
\<close>

theorem error_check_AttributeError:
  "error_check \<lparr>status = 200, json_body = JList []\<rparr> (JList []) = Inl AttributeError \<and>
   ClientCredentials_refresh (answering 200 (JList [])) 500 old_client
     = (Inl AttributeError, old_client) \<and>
   UserCredentials_refresh (answering 200 (JList [])) 500 old_user
     = (Inl AttributeError, old_user) \<and>
   ClientCredentials_from_client_secret ''id'' ''secret'' (answering 200 (JList [])) 500
     = Inl AttributeError \<and>
   UserCredentials_from_refresh_token ''id'' ''secret'' (answering 200 (JList [])) ''RT1'' 500
     = Inl AttributeError"
  by (simp add: error_check_def ClientCredentials_refresh_def UserCredentials_refresh_def
      ClientCredentials_from_client_secret_def UserCredentials_from_refresh_token_def
      Let_def answering_def)

text \<open>
  C3, amended. For every response of the token endpoint, \<open>refresh\<close> of either class
  and both factories raise \<open>AuthenticationError\<close> exactly when the parsed body is a JSON
  object whose \<open>error\<close> is truthy; the answer is the same whatever HTTP status the
  response carries; on such a body the exception is \<open>AuthenticationError\<close> with the
  response and its body. When the parsed body is a JSON object, the error check raises
  no other kind of error: a call that fails although \<open>error\<close> is not truthy fails with
  the \<open>KeyError\<close> of a key the body lacks, raised by a subscript after the check.
\<close>

theorem authentication_error_iff_truthy_error:
  "(let r = session ClientCredentials_TOKEN_URL
              (client_credentials_form (cc_client_id c) (cc_client_secret c));
        out = fst (ClientCredentials_refresh session now c)
    in is_AuthenticationError out = has_truthy_error (json_body r) \<and>
       is_AuthenticationError (fst (ClientCredentials_refresh (with_status code session) now c))
         = is_AuthenticationError out \<and>
       (has_truthy_error (json_body r) \<longrightarrow> out = Inl (AuthenticationError r (json_body r))) \<and>
       (\<forall>d e. json_body r = JObj d \<and> \<not> truthy (dict_get d ''error'') \<and> out = Inl e \<longrightarrow>
          (\<exists>k. e = KeyError k \<and> d k = None))) \<and>
   (let r = session UserCredentials_TOKEN_URL
              (refresh_token_form (uc_refresh_token u) (uc_client_id u) (uc_client_secret u));
        out = fst (UserCredentials_refresh session now u)
    in is_AuthenticationError out = has_truthy_error (json_body r) \<and>
       is_AuthenticationError (fst (UserCredentials_refresh (with_status code session) now u))
         = is_AuthenticationError out \<and>
       (has_truthy_error (json_body r) \<longrightarrow> out = Inl (AuthenticationError r (json_body r))) \<and>
       (\<forall>d e. json_body r = JObj d \<and> \<not> truthy (dict_get d ''error'') \<and> out = Inl e \<longrightarrow>
          (\<exists>k. e = KeyError k \<and> d k = None))) \<and>
   (let r = session ClientCredentials_TOKEN_URL (client_credentials_form cid cs);
        out = ClientCredentials_from_client_secret cid cs session now
    in is_AuthenticationError out = has_truthy_error (json_body r) \<and>
       is_AuthenticationError
           (ClientCredentials_from_client_secret cid cs (with_status code session) now)
         = is_AuthenticationError out \<and>
       (has_truthy_error (json_body r) \<longrightarrow> out = Inl (AuthenticationError r (json_body r))) \<and>
       (\<forall>d e. json_body r = JObj d \<and> \<not> truthy (dict_get d ''error'') \<and> out = Inl e \<longrightarrow>
          (\<exists>k. e = KeyError k \<and> d k = None))) \<and>
   (let r = session UserCredentials_TOKEN_URL (from_refresh_token_form cid cs rt);
        out = UserCredentials_from_refresh_token cid cs session rt now
    in is_AuthenticationError out = has_truthy_error (json_body r) \<and>
       is_AuthenticationError
           (UserCredentials_from_refresh_token cid cs (with_status code session) rt now)
         = is_AuthenticationError out \<and>
       (has_truthy_error (json_body r) \<longrightarrow> out = Inl (AuthenticationError r (json_body r))) \<and>
       (\<forall>d e. json_body r = JObj d \<and> \<not> truthy (dict_get d ''error'') \<and> out = Inl e \<longrightarrow>
          (\<exists>k. e = KeyError k \<and> d k = None)))"
  unfolding Let_def
  apply (intro conjI allI impI)
  apply (simp_all add: ClientCredentials_refresh_auth_iff UserCredentials_refresh_auth_iff
      from_client_secret_auth_iff from_refresh_token_auth_iff json_body_with_status
      ClientCredentials_refresh_error UserCredentials_refresh_error
      from_client_secret_error from_refresh_token_error)
  using ClientCredentials_refresh_other_error [of session c _ now]
    UserCredentials_refresh_other_error [of session u _ now]
    from_client_secret_other_error [of session cid cs _ now]
    from_refresh_token_other_error [of session cid cs rt _ now]
  apply blast+
  done

lemma not_truthy_empty_error: "\<not> has_truthy_error (JObj empty_error)"
  by (simp add: has_truthy_error_def empty_error_def dict_get_def)

lemma not_truthy_error_list: "\<not> has_truthy_error (JList vs)"
  by (simp add: has_truthy_error_def)

theorem authentication_error_iff_truthy_error_witness:
  "fst (ClientCredentials_refresh (answering 200 (JObj invalid_grant)) 500 old_client) =
     Inl (AuthenticationError \<lparr>status = 200, json_body = JObj invalid_grant\<rparr>
        (JObj invalid_grant)) \<and>
   is_AuthenticationError
     (fst (ClientCredentials_refresh (with_status 400 (answering 200 (JObj invalid_grant))) 500
        old_client)) \<and>
   fst (UserCredentials_refresh (answering 200 (JObj invalid_grant)) 500 old_user) =
     Inl (AuthenticationError \<lparr>status = 200, json_body = JObj invalid_grant\<rparr>
        (JObj invalid_grant)) \<and>
   ClientCredentials_from_client_secret ''id'' ''secret'' (answering 200 (JObj invalid_grant)) 500 =
     Inl (AuthenticationError \<lparr>status = 200, json_body = JObj invalid_grant\<rparr>
        (JObj invalid_grant)) \<and>
   UserCredentials_from_refresh_token ''id'' ''secret'' (answering 200 (JObj invalid_grant))
       ''RT1'' 500 =
     Inl (AuthenticationError \<lparr>status = 200, json_body = JObj invalid_grant\<rparr>
        (JObj invalid_grant)) \<and>
   \<not> is_AuthenticationError
       (fst (ClientCredentials_refresh (answering 400 (JObj empty_error)) 500 old_client)) \<and>
   \<not> is_AuthenticationError
       (fst (UserCredentials_refresh (answering 400 (JObj empty_error)) 500 old_user)) \<and>
   \<not> is_AuthenticationError
       (ClientCredentials_from_client_secret ''id'' ''secret''
          (answering 400 (JObj empty_error)) 500) \<and>
   \<not> is_AuthenticationError
       (UserCredentials_from_refresh_token ''id'' ''secret''
          (answering 400 (JObj empty_error)) ''RT1'' 500) \<and>
   \<not> is_AuthenticationError
       (fst (ClientCredentials_refresh (answering 400 (JList [])) 500 old_client))"
  using authentication_error_iff_truthy_error
    [where session = "answering 200 (JObj invalid_grant)" and c = old_client and u = old_user
      and cid = "''id''" and cs = "''secret''" and rt = "''RT1''" and now = 500 and code = 400]
    authentication_error_iff_truthy_error
    [where session = "answering 400 (JObj empty_error)" and c = old_client and u = old_user
      and cid = "''id''" and cs = "''secret''" and rt = "''RT1''" and now = 500 and code = 400]
    authentication_error_iff_truthy_error
    [where session = "answering 400 (JList [])" and c = old_client and u = old_user
      and cid = "''id''" and cs = "''secret''" and rt = "''RT1''" and now = 500 and code = 400]
  by (simp add: Let_def answering_def truthy_invalid_grant not_truthy_empty_error
      not_truthy_error_list is_AuthenticationError_def)

section \<open>The refresh token\<close>

lemma UserCredentials_init_refresh_token:
  "UserCredentials_init data cid cs now = Inr u \<Longrightarrow>
   uc_refresh_token u = dict_get data ''refresh_token''"
  by (auto simp add: UserCredentials_init_def split: option.splits)

lemma UserCredentials_init_success:
  "data ''access_token'' = Some a \<Longrightarrow> data ''token_type'' = Some t \<Longrightarrow>
   data ''expires_in'' = Some e \<Longrightarrow> data ''scope'' = Some s \<Longrightarrow>
   UserCredentials_init data cid cs now =
     Inr \<lparr>uc_access_token = a, uc_token_type = t, uc_expires_in = e, uc_scope = s,
          uc_refresh_token = dict_get data ''refresh_token'',
          uc_client_id = cid, uc_client_secret = cs, uc_last_authorized_time = now\<rparr>"
  by (simp add: UserCredentials_init_def)

text \<open>
  C4. Whenever \<open>from_refresh_token(client_id, client_secret, session, rt)\<close> returns a
  \<open>UserCredentials\<close>, its stored refresh token is \<open>rt\<close>. And it does return one, with
  refresh token \<open>rt\<close>, on every response whose body is a JSON object with an \<open>error\<close>
  that is not truthy and with \<open>access_token\<close>, \<open>token_type\<close>, \<open>expires_in\<close> and
  \<open>scope\<close>, whether or not the body holds a \<open>refresh_token\<close> (and whatever that one
  is).
\<close>

theorem from_refresh_token_stores_refresh_token:
  "(UserCredentials_from_refresh_token cid cs session rt now = Inr u \<longrightarrow>
      uc_refresh_token u = JStr rt) \<and>
   (json_body (session UserCredentials_TOKEN_URL (from_refresh_token_form cid cs rt)) = JObj d \<and>
    \<not> truthy (dict_get d ''error'') \<and> d ''access_token'' = Some a \<and>
    d ''token_type'' = Some t \<and> d ''expires_in'' = Some e \<and> d ''scope'' = Some s \<longrightarrow>
      UserCredentials_from_refresh_token cid cs session rt now =
        Inr \<lparr>uc_access_token = a, uc_token_type = t, uc_expires_in = e, uc_scope = s,
             uc_refresh_token = JStr rt,
             uc_client_id = cid, uc_client_secret = cs, uc_last_authorized_time = now\<rparr>)"
proof (intro conjI impI)
  assume "UserCredentials_from_refresh_token cid cs session rt now = Inr u"
  from from_refresh_token_Inr [OF this]
  obtain d' where "UserCredentials_init (d'(''refresh_token'' \<mapsto> JStr rt)) cid cs now = Inr u"
    by blast
  from UserCredentials_init_refresh_token [OF this]
  show "uc_refresh_token u = JStr rt"
    by (simp add: dict_get_def)
next
  assume "json_body (session UserCredentials_TOKEN_URL (from_refresh_token_form cid cs rt))
      = JObj d \<and>
    \<not> truthy (dict_get d ''error'') \<and> d ''access_token'' = Some a \<and>
    d ''token_type'' = Some t \<and> d ''expires_in'' = Some e \<and> d ''scope'' = Some s"
  then show "UserCredentials_from_refresh_token cid cs session rt now =
        Inr \<lparr>uc_access_token = a, uc_token_type = t, uc_expires_in = e, uc_scope = s,
             uc_refresh_token = JStr rt,
             uc_client_id = cid, uc_client_secret = cs, uc_last_authorized_time = now\<rparr>"
    using from_refresh_token_object [of session cid cs rt d now]
    by (simp add: UserCredentials_init_success dict_get_def)
qed

theorem from_refresh_token_stores_refresh_token_witness:
  "UserCredentials_from_refresh_token ''id'' ''secret'' (answering 200 (JObj user_payload))
       ''RT1'' 500 =
     Inr \<lparr>uc_access_token = JStr ''AT2'', uc_token_type = JStr ''Bearer'',
          uc_expires_in = JInt 3600, uc_scope = JStr ''user-read'',
          uc_refresh_token = JStr ''RT1'',
          uc_client_id = ''id'', uc_client_secret = ''secret'', uc_last_authorized_time = 500\<rparr> \<and>
   user_payload ''refresh_token'' = None"
  using from_refresh_token_stores_refresh_token
    [where session = "answering 200 (JObj user_payload)" and cid = "''id''" and cs = "''secret''"
      and rt = "''RT1''" and now = 500 and a = "JStr ''AT2''" and t = "JStr ''Bearer''"
      and e = "JInt 3600" and s = "JStr ''user-read''" and d = user_payload]
  by (simp add: answering_def user_payload_def dict_get_def)

lemma UserCredentials_refresh_success:
  assumes "fst (UserCredentials_refresh session now u) = Inr ()"
  shows "\<exists>d a t s e.
     json_body (session UserCredentials_TOKEN_URL
       (refresh_token_form (uc_refresh_token u) (uc_client_id u) (uc_client_secret u))) = JObj d \<and>
     d ''access_token'' = Some a \<and> d ''token_type'' = Some t \<and>
     d ''scope'' = Some s \<and> d ''expires_in'' = Some e \<and>
     snd (UserCredentials_refresh session now u) =
       u\<lparr>uc_access_token := a, uc_token_type := t, uc_scope := s, uc_expires_in := e,
         uc_last_authorized_time := now\<rparr>"
proof (cases "error_check
    (session UserCredentials_TOKEN_URL
       (refresh_token_form (uc_refresh_token u) (uc_client_id u) (uc_client_secret u)))
    (json_body (session UserCredentials_TOKEN_URL
       (refresh_token_form (uc_refresh_token u) (uc_client_id u) (uc_client_secret u))))")
  case (Inl err)
  with assms show ?thesis
    by (simp add: UserCredentials_refresh_def Let_def)
next
  case (Inr d)
  from error_check_Inr [OF Inr]
  have b: "json_body (session UserCredentials_TOKEN_URL
       (refresh_token_form (uc_refresh_token u) (uc_client_id u) (uc_client_secret u))) = JObj d"
    and n: "\<not> truthy (dict_get d ''error'')"
    by simp_all
  from assms UserCredentials_refresh_object [of session u d now] b n
  have "\<exists>a t s e. d ''access_token'' = Some a \<and> d ''token_type'' = Some t \<and>
     d ''scope'' = Some s \<and> d ''expires_in'' = Some e \<and>
     snd (UserCredentials_refresh session now u) =
       u\<lparr>uc_access_token := a, uc_token_type := t, uc_scope := s, uc_expires_in := e,
         uc_last_authorized_time := now\<rparr>"
    by (auto split: option.splits)
  with b show ?thesis by blast
qed

lemma ClientCredentials_refresh_success:
  assumes "fst (ClientCredentials_refresh session now c) = Inr ()"
  shows "\<exists>d a t e.
     json_body (session ClientCredentials_TOKEN_URL
       (client_credentials_form (cc_client_id c) (cc_client_secret c))) = JObj d \<and>
     d ''access_token'' = Some a \<and> d ''token_type'' = Some t \<and> d ''expires_in'' = Some e \<and>
     snd (ClientCredentials_refresh session now c) =
       c\<lparr>cc_access_token := a, cc_token_type := t, cc_expires_in := e,
         cc_last_authorized_time := now\<rparr>"
proof (cases "error_check
    (session ClientCredentials_TOKEN_URL
       (client_credentials_form (cc_client_id c) (cc_client_secret c)))
    (json_body (session ClientCredentials_TOKEN_URL
       (client_credentials_form (cc_client_id c) (cc_client_secret c))))")
  case (Inl err)
  with assms show ?thesis
    by (simp add: ClientCredentials_refresh_def Let_def)
next
  case (Inr d)
  from error_check_Inr [OF Inr]
  have b: "json_body (session ClientCredentials_TOKEN_URL
       (client_credentials_form (cc_client_id c) (cc_client_secret c))) = JObj d"
    and n: "\<not> truthy (dict_get d ''error'')"
    by simp_all
  from assms ClientCredentials_refresh_object [of session c d now] b n
  have "\<exists>a t e. d ''access_token'' = Some a \<and> d ''token_type'' = Some t \<and>
     d ''expires_in'' = Some e \<and>
     snd (ClientCredentials_refresh session now c) =
       c\<lparr>cc_access_token := a, cc_token_type := t, cc_expires_in := e,
         cc_last_authorized_time := now\<rparr>"
    by (auto split: option.splits)
  with b show ?thesis by blast
qed

lemma UserCredentials_refresh_frame:
  "uc_refresh_token (snd (UserCredentials_refresh session now u)) = uc_refresh_token u \<and>
   uc_client_id (snd (UserCredentials_refresh session now u)) = uc_client_id u \<and>
   uc_client_secret (snd (UserCredentials_refresh session now u)) = uc_client_secret u"
  by (simp add: UserCredentials_refresh_def Let_def split: sum.splits option.splits)

lemma ClientCredentials_refresh_frame:
  "cc_client_id (snd (ClientCredentials_refresh session now c)) = cc_client_id c \<and>
   cc_client_secret (snd (ClientCredentials_refresh session now c)) = cc_client_secret c"
  by (simp add: ClientCredentials_refresh_def Let_def split: sum.splits option.splits)

text \<open>
  C5. \<open>UserCredentials.refresh\<close> never writes the refresh token: after the call the
  stored refresh token is the one stored before, whatever the response holds and
  whether the call returns or raises. When the call returns, the body was a JSON
  object holding \<open>access_token\<close>, \<open>token_type\<close>, \<open>scope\<close> and \<open>expires_in\<close>, and the
  object differs from the one before in exactly those four fields, now the body's
  values, and in \<open>last_authorized_time\<close>, now the current time.
\<close>

theorem refresh_keeps_refresh_token:
  "uc_refresh_token (snd (UserCredentials_refresh session now u)) = uc_refresh_token u \<and>
   (fst (UserCredentials_refresh session now u) = Inr () \<longrightarrow>
      (\<exists>d a t s e.
          json_body (session UserCredentials_TOKEN_URL
            (refresh_token_form (uc_refresh_token u) (uc_client_id u) (uc_client_secret u)))
              = JObj d \<and>
          d ''access_token'' = Some a \<and> d ''token_type'' = Some t \<and>
          d ''scope'' = Some s \<and> d ''expires_in'' = Some e \<and>
          snd (UserCredentials_refresh session now u) =
            u\<lparr>uc_access_token := a, uc_token_type := t, uc_scope := s, uc_expires_in := e,
              uc_last_authorized_time := now\<rparr>))"
  using UserCredentials_refresh_success [of session now u]
  by (simp add: UserCredentials_refresh_frame)

lemma user_refresh_returns:
  "fst (UserCredentials_refresh (answering 200 (JObj user_payload)) 500 old_user) = Inr ()"
  by (simp add: UserCredentials_refresh_def Let_def error_check_def answering_def
      user_payload_def dict_get_def)

theorem refresh_keeps_refresh_token_witness:
  "uc_refresh_token (snd (UserCredentials_refresh (answering 200 (JObj user_payload)) 500 old_user))
     = JStr ''RT1'' \<and>
   snd (UserCredentials_refresh (answering 200 (JObj user_payload)) 500 old_user) =
     \<lparr>uc_access_token = JStr ''AT2'', uc_token_type = JStr ''Bearer'', uc_expires_in = JInt 3600,
      uc_scope = JStr ''user-read'', uc_refresh_token = JStr ''RT1'',
      uc_client_id = ''id'', uc_client_secret = ''secret'', uc_last_authorized_time = 500\<rparr>"
  using refresh_keeps_refresh_token
    [where session = "answering 200 (JObj user_payload)" and now = 500 and u = old_user]
    user_refresh_returns
  by (simp add: answering_def user_payload_def old_user_def)

section \<open>The expiry clock\<close>

lemma ClientCredentials_init_clock:
  "ClientCredentials_init data cid cs now = Inr c \<Longrightarrow>
   data ''expires_in'' = Some (cc_expires_in c) \<and> cc_last_authorized_time c = now \<and>
   cc_client_id c = cid \<and> cc_client_secret c = cs"
  by (auto simp add: ClientCredentials_init_def split: option.splits)

lemma UserCredentials_init_clock:
  "UserCredentials_init data cid cs now = Inr u \<Longrightarrow>
   data ''expires_in'' = Some (uc_expires_in u) \<and> uc_last_authorized_time u = now \<and>
   uc_client_id u = cid \<and> uc_client_secret u = cs"
  by (auto simp add: UserCredentials_init_def split: option.splits)

lemma from_client_secret_clock:
  assumes "ClientCredentials_from_client_secret cid cs session now = Inr c"
  shows "(\<exists>d. json_body (session ClientCredentials_TOKEN_URL (client_credentials_form cid cs))
                = JObj d \<and> d ''expires_in'' = Some (cc_expires_in c)) \<and>
         cc_last_authorized_time c = now"
proof -
  from from_client_secret_Inr [OF assms]
  obtain d where d: "json_body (session ClientCredentials_TOKEN_URL
        (client_credentials_form cid cs)) = JObj d"
    "ClientCredentials_init d cid cs now = Inr c"
    by blast
  from ClientCredentials_init_clock [OF d(2)] d(1) show ?thesis by blast
qed

lemma from_refresh_token_clock:
  assumes "UserCredentials_from_refresh_token cid cs session rt now = Inr u"
  shows "(\<exists>d. json_body (session UserCredentials_TOKEN_URL (from_refresh_token_form cid cs rt))
                = JObj d \<and> d ''expires_in'' = Some (uc_expires_in u)) \<and>
         uc_last_authorized_time u = now"
proof -
  from from_refresh_token_Inr [OF assms]
  obtain d where d: "json_body (session UserCredentials_TOKEN_URL
        (from_refresh_token_form cid cs rt)) = JObj d"
    "UserCredentials_init (d(''refresh_token'' \<mapsto> JStr rt)) cid cs now = Inr u"
    by blast
  from UserCredentials_init_clock [OF d(2)]
  have "d ''expires_in'' = Some (uc_expires_in u)" "uc_last_authorized_time u = now"
    by simp_all
  with d(1) show ?thesis by blast
qed

lemma ClientCredentials_refresh_clock:
  "fst (ClientCredentials_refresh session now c) = Inr () \<Longrightarrow>
   (\<exists>d. json_body (session ClientCredentials_TOKEN_URL
           (client_credentials_form (cc_client_id c) (cc_client_secret c))) = JObj d \<and>
        d ''expires_in'' = Some (cc_expires_in (snd (ClientCredentials_refresh session now c)))) \<and>
   cc_last_authorized_time (snd (ClientCredentials_refresh session now c)) = now"
  using ClientCredentials_refresh_success [of session now c] by auto

lemma UserCredentials_refresh_clock:
  "fst (UserCredentials_refresh session now u) = Inr () \<Longrightarrow>
   (\<exists>d. json_body (session UserCredentials_TOKEN_URL
           (refresh_token_form (uc_refresh_token u) (uc_client_id u) (uc_client_secret u)))
             = JObj d \<and>
        d ''expires_in'' = Some (uc_expires_in (snd (UserCredentials_refresh session now u)))) \<and>
   uc_last_authorized_time (snd (UserCredentials_refresh session now u)) = now"
  using UserCredentials_refresh_success [of session now u] by auto

lemma ClientCredentials_refresh_failed:
  "fst (ClientCredentials_refresh session now c) \<noteq> Inr () \<Longrightarrow>
   cc_expires_in (snd (ClientCredentials_refresh session now c)) = cc_expires_in c \<and>
   cc_last_authorized_time (snd (ClientCredentials_refresh session now c))
     = cc_last_authorized_time c"
  by (auto simp add: ClientCredentials_refresh_def Let_def split: sum.splits option.splits)

lemma UserCredentials_refresh_failed:
  "fst (UserCredentials_refresh session now u) \<noteq> Inr () \<Longrightarrow>
   uc_expires_in (snd (UserCredentials_refresh session now u)) = uc_expires_in u \<and>
   uc_last_authorized_time (snd (UserCredentials_refresh session now u))
     = uc_last_authorized_time u"
  by (auto simp add: UserCredentials_refresh_def Let_def split: sum.splits option.splits)

lemma ClientCredentials_fresh:
  "cc_last_authorized_time c = now \<Longrightarrow> num_of (cc_expires_in c) = Some e \<Longrightarrow> 0 < e \<Longrightarrow>
   fst (ClientCredentials_is_expired now c) = Inr False"
  by (simp add: ClientCredentials_is_expired_def ClientCredentials_expires_in_def float_ge_num
      float_sub_same)

lemma UserCredentials_fresh:
  "uc_last_authorized_time u = now \<Longrightarrow> num_of (uc_expires_in u) = Some e \<Longrightarrow> 0 < e \<Longrightarrow>
   fst (UserCredentials_is_expired now u) = Inr False"
  by (simp add: UserCredentials_is_expired_def UserCredentials_expires_in_def float_ge_num
      float_sub_same)

text \<open>
  C6. A record whose \<open>expires_in\<close> is a number greater than zero is not expired at the
  instant it was authorised: \<open>is_expired()\<close> read at the clock value that the
  constructor, a factory or a successful \<open>refresh\<close> has just stored returns false,
  for both classes.
\<close>

theorem fresh_record_not_expired:
  "(ClientCredentials_init data cid cs now = Inr c \<and>
      num_of (cc_expires_in c) = Some e \<and> 0 < e \<longrightarrow>
      fst (ClientCredentials_is_expired now c) = Inr False) \<and>
   (ClientCredentials_from_client_secret cid cs session now = Inr c \<and>
      num_of (cc_expires_in c) = Some e \<and> 0 < e \<longrightarrow>
      fst (ClientCredentials_is_expired now c) = Inr False) \<and>
   (ClientCredentials_refresh session now c_old = (Inr (), c) \<and>
      num_of (cc_expires_in c) = Some e \<and> 0 < e \<longrightarrow>
      fst (ClientCredentials_is_expired now c) = Inr False) \<and>
   (UserCredentials_init data cid cs now = Inr u \<and>
      num_of (uc_expires_in u) = Some e \<and> 0 < e \<longrightarrow>
      fst (UserCredentials_is_expired now u) = Inr False) \<and>
   (UserCredentials_from_refresh_token cid cs session rt now = Inr u \<and>
      num_of (uc_expires_in u) = Some e \<and> 0 < e \<longrightarrow>
      fst (UserCredentials_is_expired now u) = Inr False) \<and>
   (UserCredentials_refresh session now u_old = (Inr (), u) \<and>
      num_of (uc_expires_in u) = Some e \<and> 0 < e \<longrightarrow>
      fst (UserCredentials_is_expired now u) = Inr False)"
proof (intro conjI impI; elim conjE)
  assume "ClientCredentials_init data cid cs now = Inr c"
    and e: "num_of (cc_expires_in c) = Some e" "0 < e"
  from ClientCredentials_init_clock [OF this(1)] e
  show "fst (ClientCredentials_is_expired now c) = Inr False"
    by (simp add: ClientCredentials_fresh)
next
  assume "ClientCredentials_from_client_secret cid cs session now = Inr c"
    and e: "num_of (cc_expires_in c) = Some e" "0 < e"
  from from_client_secret_clock [OF this(1)] e
  show "fst (ClientCredentials_is_expired now c) = Inr False"
    by (simp add: ClientCredentials_fresh)
next
  assume r: "ClientCredentials_refresh session now c_old = (Inr (), c)"
    and e: "num_of (cc_expires_in c) = Some e" "0 < e"
  from r ClientCredentials_refresh_clock [of session now c_old]
  have "cc_last_authorized_time c = now" by simp
  with e show "fst (ClientCredentials_is_expired now c) = Inr False"
    by (simp add: ClientCredentials_fresh)
next
  assume "UserCredentials_init data cid cs now = Inr u"
    and e: "num_of (uc_expires_in u) = Some e" "0 < e"
  from UserCredentials_init_clock [OF this(1)] e
  show "fst (UserCredentials_is_expired now u) = Inr False"
    by (simp add: UserCredentials_fresh)
next
  assume "UserCredentials_from_refresh_token cid cs session rt now = Inr u"
    and e: "num_of (uc_expires_in u) = Some e" "0 < e"
  from from_refresh_token_clock [OF this(1)] e
  show "fst (UserCredentials_is_expired now u) = Inr False"
    by (simp add: UserCredentials_fresh)
next
  assume r: "UserCredentials_refresh session now u_old = (Inr (), u)"
    and e: "num_of (uc_expires_in u) = Some e" "0 < e"
  from r UserCredentials_refresh_clock [of session now u_old]
  have "uc_last_authorized_time u = now" by simp
  with e show "fst (UserCredentials_is_expired now u) = Inr False"
    by (simp add: UserCredentials_fresh)
qed

lemma new_client_made:
  "ClientCredentials_init client_payload ''id'' ''secret'' 500 = Inr new_client \<and>
   ClientCredentials_from_client_secret ''id'' ''secret'' (answering 200 (JObj client_payload)) 500
     = Inr new_client \<and>
   ClientCredentials_refresh (answering 200 (JObj client_payload)) 500 old_client
     = (Inr (), new_client)"
  by (simp add: ClientCredentials_init_def ClientCredentials_from_client_secret_def
      ClientCredentials_refresh_def Let_def error_check_def answering_def client_payload_def
      dict_get_def new_client_def old_client_def)

lemma new_user_made:
  "UserCredentials_init (user_payload(''refresh_token'' \<mapsto> JStr ''RT1'')) ''id'' ''secret'' 500
     = Inr new_user \<and>
   UserCredentials_from_refresh_token ''id'' ''secret'' (answering 200 (JObj user_payload))
       ''RT1'' 500
     = Inr new_user \<and>
   UserCredentials_refresh (answering 200 (JObj user_payload)) 500 old_user = (Inr (), new_user)"
  by (simp add: UserCredentials_init_def UserCredentials_from_refresh_token_def
      UserCredentials_refresh_def Let_def error_check_def answering_def user_payload_def
      dict_get_def new_user_def old_user_def)

theorem fresh_record_not_expired_witness:
  "ClientCredentials_init client_payload ''id'' ''secret'' 500 = Inr new_client \<and>
   ClientCredentials_access_token new_client = JStr ''AT1'' \<and>
   fst (ClientCredentials_is_expired 500 new_client) = Inr False \<and>
   fst (UserCredentials_is_expired 500 new_user) = Inr False"
  using fresh_record_not_expired
    [where data = client_payload and cid = "''id''" and cs = "''secret''" and now = 500
      and c = new_client and e = 3600 and session = "answering 200 (JObj user_payload)"
      and rt = "''RT1''" and u = new_user and u_old = old_user and c_old = old_client]
    new_client_made new_user_made
  by (simp add: new_client_def new_user_def ClientCredentials_access_token_def)

subsection \<open>What other code can see of a refresh\<close>

lemma ClientCredentials_refresh_steps_last:
  "last (ClientCredentials_refresh_steps session now c) =
     Suspended (snd (ClientCredentials_refresh session now c))"
  by (simp add: ClientCredentials_refresh_steps_def ClientCredentials_refresh_def Let_def
      split: sum.splits option.splits)

lemma UserCredentials_refresh_steps_last:
  "last (UserCredentials_refresh_steps session now u) =
     Suspended (snd (UserCredentials_refresh session now u))"
  by (simp add: UserCredentials_refresh_steps_def UserCredentials_refresh_def Let_def
      split: sum.splits option.splits)

lemma ClientCredentials_refresh_steps_suspended:
  "s \<in> set (suspended (ClientCredentials_refresh_steps session now c)) \<Longrightarrow>
   s = c \<or> s = snd (ClientCredentials_refresh session now c)"
  by (auto simp add: ClientCredentials_refresh_steps_def ClientCredentials_refresh_def Let_def
      split: sum.splits option.splits)

lemma UserCredentials_refresh_steps_suspended:
  "s \<in> set (suspended (UserCredentials_refresh_steps session now u)) \<Longrightarrow>
   s = u \<or> s = snd (UserCredentials_refresh session now u)"
  by (auto simp add: UserCredentials_refresh_steps_def UserCredentials_refresh_def Let_def
      split: sum.splits option.splits)

lemma ClientCredentials_refresh_steps_between:
  "fst (ClientCredentials_refresh session now c) = Inr () \<Longrightarrow>
   Running ((snd (ClientCredentials_refresh session now c))
       \<lparr>cc_last_authorized_time := cc_last_authorized_time c\<rparr>)
     \<in> set (ClientCredentials_refresh_steps session now c)"
  by (auto simp add: ClientCredentials_refresh_steps_def ClientCredentials_refresh_def Let_def
      split: sum.splits option.splits)

lemma UserCredentials_refresh_steps_between:
  "fst (UserCredentials_refresh session now u) = Inr () \<Longrightarrow>
   Running ((snd (UserCredentials_refresh session now u))
       \<lparr>uc_last_authorized_time := uc_last_authorized_time u\<rparr>)
     \<in> set (UserCredentials_refresh_steps session now u)"
  by (auto simp add: UserCredentials_refresh_steps_def UserCredentials_refresh_def Let_def
      split: sum.splits option.splits)

text \<open>
  C7. \<open>refresh\<close> writes \<open>expires_in\<close> and \<open>last_authorized_time\<close> together, as other code
  sees it. The steps of a \<open>refresh\<close> end in the object the call leaves. Every object
  that other code can see during or after the call (a suspended moment) either still
  has the old \<open>expires_in\<close> with the old \<open>last_authorized_time\<close>, or is the object a
  successful call leaves. That object holds the body's \<open>expires_in\<close> and the current
  time; the object with the new \<open>expires_in\<close> and the old \<open>last_authorized_time\<close> does
  occur among the steps, but only as a running moment between the two assignments. A
  call that raises (also after it has written \<open>access_token\<close>) leaves the old pair.
  The constructor and both factories store the payload's \<open>expires_in\<close> and the
  current time.
\<close>

theorem expiry_clock_written_together:
  "(let c' = snd (ClientCredentials_refresh session now c_old)
    in last (ClientCredentials_refresh_steps session now c_old) = Suspended c' \<and>
       (\<forall>s \<in> set (suspended (ClientCredentials_refresh_steps session now c_old)).
          (cc_expires_in s = cc_expires_in c_old \<and>
           cc_last_authorized_time s = cc_last_authorized_time c_old) \<or>
          (fst (ClientCredentials_refresh session now c_old) = Inr () \<and> s = c')) \<and>
       (fst (ClientCredentials_refresh session now c_old) = Inr () \<longrightarrow>
          (\<exists>d. json_body (session ClientCredentials_TOKEN_URL
                  (client_credentials_form (cc_client_id c_old) (cc_client_secret c_old)))
                    = JObj d \<and>
               d ''expires_in'' = Some (cc_expires_in c')) \<and>
          cc_last_authorized_time c' = now \<and>
          Running (c'\<lparr>cc_last_authorized_time := cc_last_authorized_time c_old\<rparr>)
            \<in> set (ClientCredentials_refresh_steps session now c_old)) \<and>
       (fst (ClientCredentials_refresh session now c_old) \<noteq> Inr () \<longrightarrow>
          cc_expires_in c' = cc_expires_in c_old \<and>
          cc_last_authorized_time c' = cc_last_authorized_time c_old)) \<and>
   (let u' = snd (UserCredentials_refresh session now u_old)
    in last (UserCredentials_refresh_steps session now u_old) = Suspended u' \<and>
       (\<forall>s \<in> set (suspended (UserCredentials_refresh_steps session now u_old)).
          (uc_expires_in s = uc_expires_in u_old \<and>
           uc_last_authorized_time s = uc_last_authorized_time u_old) \<or>
          (fst (UserCredentials_refresh session now u_old) = Inr () \<and> s = u')) \<and>
       (fst (UserCredentials_refresh session now u_old) = Inr () \<longrightarrow>
          (\<exists>d. json_body (session UserCredentials_TOKEN_URL
                  (refresh_token_form (uc_refresh_token u_old) (uc_client_id u_old)
                     (uc_client_secret u_old))) = JObj d \<and>
               d ''expires_in'' = Some (uc_expires_in u')) \<and>
          uc_last_authorized_time u' = now \<and>
          Running (u'\<lparr>uc_last_authorized_time := uc_last_authorized_time u_old\<rparr>)
            \<in> set (UserCredentials_refresh_steps session now u_old)) \<and>
       (fst (UserCredentials_refresh session now u_old) \<noteq> Inr () \<longrightarrow>
          uc_expires_in u' = uc_expires_in u_old \<and>
          uc_last_authorized_time u' = uc_last_authorized_time u_old)) \<and>
   (ClientCredentials_init data cid cs now = Inr c \<longrightarrow>
      data ''expires_in'' = Some (cc_expires_in c) \<and> cc_last_authorized_time c = now) \<and>
   (UserCredentials_init data cid cs now = Inr u \<longrightarrow>
      data ''expires_in'' = Some (uc_expires_in u) \<and> uc_last_authorized_time u = now) \<and>
   (ClientCredentials_from_client_secret cid cs session now = Inr c \<longrightarrow>
      (\<exists>d. json_body (session ClientCredentials_TOKEN_URL (client_credentials_form cid cs))
              = JObj d \<and> d ''expires_in'' = Some (cc_expires_in c)) \<and>
      cc_last_authorized_time c = now) \<and>
   (UserCredentials_from_refresh_token cid cs session rt now = Inr u \<longrightarrow>
      (\<exists>d. json_body (session UserCredentials_TOKEN_URL (from_refresh_token_form cid cs rt))
              = JObj d \<and> d ''expires_in'' = Some (uc_expires_in u)) \<and>
      uc_last_authorized_time u = now)"
proof -
  have cc_seen: "\<forall>s \<in> set (suspended (ClientCredentials_refresh_steps session now c_old)).
      (cc_expires_in s = cc_expires_in c_old \<and>
       cc_last_authorized_time s = cc_last_authorized_time c_old) \<or>
      (fst (ClientCredentials_refresh session now c_old) = Inr () \<and>
       s = snd (ClientCredentials_refresh session now c_old))"
  proof
    fix s
    assume "s \<in> set (suspended (ClientCredentials_refresh_steps session now c_old))"
    from ClientCredentials_refresh_steps_suspended [OF this]
      ClientCredentials_refresh_failed [of session now c_old]
    show "(cc_expires_in s = cc_expires_in c_old \<and>
       cc_last_authorized_time s = cc_last_authorized_time c_old) \<or>
      (fst (ClientCredentials_refresh session now c_old) = Inr () \<and>
       s = snd (ClientCredentials_refresh session now c_old))"
      by blast
  qed
  have uc_seen: "\<forall>s \<in> set (suspended (UserCredentials_refresh_steps session now u_old)).
      (uc_expires_in s = uc_expires_in u_old \<and>
       uc_last_authorized_time s = uc_last_authorized_time u_old) \<or>
      (fst (UserCredentials_refresh session now u_old) = Inr () \<and>
       s = snd (UserCredentials_refresh session now u_old))"
  proof
    fix s
    assume "s \<in> set (suspended (UserCredentials_refresh_steps session now u_old))"
    from UserCredentials_refresh_steps_suspended [OF this]
      UserCredentials_refresh_failed [of session now u_old]
    show "(uc_expires_in s = uc_expires_in u_old \<and>
       uc_last_authorized_time s = uc_last_authorized_time u_old) \<or>
      (fst (UserCredentials_refresh session now u_old) = Inr () \<and>
       s = snd (UserCredentials_refresh session now u_old))"
      by blast
  qed
  show ?thesis
    unfolding Let_def
    using cc_seen uc_seen
      ClientCredentials_refresh_steps_last [of session now c_old]
      UserCredentials_refresh_steps_last [of session now u_old]
      ClientCredentials_refresh_clock [of session now c_old]
      ClientCredentials_refresh_failed [of session now c_old]
      ClientCredentials_refresh_steps_between [of session now c_old]
      UserCredentials_refresh_clock [of session now u_old]
      UserCredentials_refresh_failed [of session now u_old]
      UserCredentials_refresh_steps_between [of session now u_old]
      ClientCredentials_init_clock [of data cid cs now c]
      UserCredentials_init_clock [of data cid cs now u]
      from_client_secret_clock [of cid cs session now c]
      from_refresh_token_clock [of cid cs session rt now u]
    by blast
qed

lemma client_refresh_returns:
  "fst (ClientCredentials_refresh (answering 200 (JObj user_payload)) 500 old_client) = Inr ()"
  by (simp add: ClientCredentials_refresh_def Let_def error_check_def answering_def
      user_payload_def dict_get_def)

lemma client_refresh_raises:
  "fst (ClientCredentials_refresh (answering 200 (JObj no_expiry_payload)) 500 old_client)
     = Inl (KeyError ''expires_in'') \<and>
   cc_access_token
     (snd (ClientCredentials_refresh (answering 200 (JObj no_expiry_payload)) 500 old_client))
     = JStr ''AT1''"
  by (simp add: ClientCredentials_refresh_def Let_def error_check_def answering_def
      no_expiry_payload_def dict_get_def)

text \<open>
  One response that makes both refreshes return, and one that makes the client's
  refresh raise after it has written the access token.
\<close>

theorem expiry_clock_written_together_witness:
  "fst (ClientCredentials_refresh (answering 200 (JObj user_payload)) 500 old_client) = Inr () \<and>
   cc_expires_in (snd (ClientCredentials_refresh (answering 200 (JObj user_payload)) 500 old_client))
     = JInt 3600 \<and>
   cc_last_authorized_time
     (snd (ClientCredentials_refresh (answering 200 (JObj user_payload)) 500 old_client)) = 500 \<and>
   Running ((snd (ClientCredentials_refresh (answering 200 (JObj user_payload)) 500 old_client))
       \<lparr>cc_last_authorized_time := 100\<rparr>)
     \<in> set (ClientCredentials_refresh_steps (answering 200 (JObj user_payload)) 500 old_client) \<and>
   fst (UserCredentials_refresh (answering 200 (JObj user_payload)) 500 old_user) = Inr () \<and>
   uc_expires_in (snd (UserCredentials_refresh (answering 200 (JObj user_payload)) 500 old_user))
     = JInt 3600 \<and>
   uc_last_authorized_time
     (snd (UserCredentials_refresh (answering 200 (JObj user_payload)) 500 old_user)) = 500 \<and>
   last (UserCredentials_refresh_steps (answering 200 (JObj user_payload)) 500 old_user)
     = Suspended (snd (UserCredentials_refresh (answering 200 (JObj user_payload)) 500 old_user)) \<and>
   cc_access_token
     (snd (ClientCredentials_refresh (answering 200 (JObj no_expiry_payload)) 500 old_client))
     = JStr ''AT1'' \<and>
   cc_expires_in
     (snd (ClientCredentials_refresh (answering 200 (JObj no_expiry_payload)) 500 old_client))
     = JInt 60 \<and>
   cc_last_authorized_time
     (snd (ClientCredentials_refresh (answering 200 (JObj no_expiry_payload)) 500 old_client))
     = 100 \<and>
   cc_last_authorized_time new_client = 500 \<and>
   ClientCredentials_init client_payload ''id'' ''secret'' 500 = Inr new_client"
  using client_refresh_returns user_refresh_returns client_refresh_raises new_client_made
    expiry_clock_written_together
    [where session = "answering 200 (JObj user_payload)" and now = 500 and c_old = old_client
      and u_old = old_user and data = client_payload and cid = "''id''" and cs = "''secret''"
      and c = new_client and u = new_user and rt = "''RT1''"]
    expiry_clock_written_together
    [where session = "answering 200 (JObj no_expiry_payload)" and now = 500 and c_old = old_client
      and u_old = old_user and data = client_payload and cid = "''id''" and cs = "''secret''"
      and c = new_client and u = new_user and rt = "''RT1''"]
  by (simp add: Let_def answering_def user_payload_def old_client_def old_user_def)

section \<open>Payloads that lack a field\<close>

text \<open>
  C8 as the specification states it: constructing from a payload that lacks a required
  field fails with \<open>ValidationError\<close>. The source has no such check and no such
  exception: the first subscript of a missing key raises \<open>KeyError\<close>. The empty
  payload lacks every field of \<open>ClientCredentials\<close>, and the payload of a
  client-credentials grant lacks the \<open>scope\<close> that \<open>UserCredentials\<close> requires.
\<close>

theorem init_missing_field_not_ValidationError:
  "Map.empty ''access_token'' = (None :: json option) \<and>
   ClientCredentials_init Map.empty ''id'' ''secret'' 500 = Inl (KeyError ''access_token'') \<and>
   ClientCredentials_init Map.empty ''id'' ''secret'' 500 \<noteq> Inl ValidationError \<and>
   client_payload ''scope'' = None \<and>
   UserCredentials_init client_payload ''id'' ''secret'' 500 = Inl (KeyError ''scope'') \<and>
   UserCredentials_init client_payload ''id'' ''secret'' 500 \<noteq> Inl ValidationError"
  by (simp add: ClientCredentials_init_def UserCredentials_init_def client_payload_def)

lemma find_missing3:
  "find (\<lambda>k. (data :: dict) k = None) [a, b, c] =
     (if data a = None then Some a else if data b = None then Some b
      else if data c = None then Some c else None)"
  by simp

lemma find_missing4:
  "find (\<lambda>k. (data :: dict) k = None) [a, b, c, d] =
     (if data a = None then Some a else if data b = None then Some b
      else if data c = None then Some c else if data d = None then Some d else None)"
  by simp

lemma ClientCredentials_init_missing:
  "ClientCredentials_init data cid cs now =
     (if data ''access_token'' = None then Inl (KeyError ''access_token'')
      else if data ''token_type'' = None then Inl (KeyError ''token_type'')
      else if data ''expires_in'' = None then Inl (KeyError ''expires_in'')
      else Inr \<lparr>cc_access_token = the (data ''access_token''),
                cc_token_type = the (data ''token_type''),
                cc_expires_in = the (data ''expires_in''),
                cc_client_id = cid, cc_client_secret = cs, cc_last_authorized_time = now\<rparr>)"
  unfolding ClientCredentials_init_def
  by (cases "data ''access_token''"; cases "data ''token_type''"; cases "data ''expires_in''")
    simp_all

lemma UserCredentials_init_missing:
  "UserCredentials_init data cid cs now =
     (if data ''access_token'' = None then Inl (KeyError ''access_token'')
      else if data ''token_type'' = None then Inl (KeyError ''token_type'')
      else if data ''expires_in'' = None then Inl (KeyError ''expires_in'')
      else if data ''scope'' = None then Inl (KeyError ''scope'')
      else Inr \<lparr>uc_access_token = the (data ''access_token''),
                uc_token_type = the (data ''token_type''),
                uc_expires_in = the (data ''expires_in''),
                uc_scope = the (data ''scope''),
                uc_refresh_token = dict_get data ''refresh_token'',
                uc_client_id = cid, uc_client_secret = cs, uc_last_authorized_time = now\<rparr>)"
  unfolding UserCredentials_init_def
  by (cases "data ''access_token''"; cases "data ''token_type''"; cases "data ''expires_in''";
      cases "data ''scope''") simp_all

text \<open>
  C8, amended. Constructing from a payload that lacks a required field (\<open>access_token\<close>,
  \<open>token_type\<close> or \<open>expires_in\<close>; for \<open>UserCredentials\<close> also \<open>scope\<close>) fails with
  \<open>KeyError\<close> of the first required key, in that order, that the payload lacks. No
  payload makes a constructor fail with \<open>ValidationError\<close>.
\<close>

theorem init_missing_field_KeyError:
  "(find (\<lambda>k. data k = None) [''access_token'', ''token_type'', ''expires_in''] = Some k \<longrightarrow>
      ClientCredentials_init data cid cs now = Inl (KeyError k)) \<and>
   (find (\<lambda>k. data k = None) [''access_token'', ''token_type'', ''expires_in'', ''scope'']
        = Some k' \<longrightarrow>
      UserCredentials_init data cid cs now = Inl (KeyError k')) \<and>
   ClientCredentials_init data cid cs now \<noteq> Inl ValidationError \<and>
   UserCredentials_init data cid cs now \<noteq> Inl ValidationError"
proof (intro conjI impI)
  assume "find (\<lambda>k. data k = None) [''access_token'', ''token_type'', ''expires_in''] = Some k"
  then show "ClientCredentials_init data cid cs now = Inl (KeyError k)"
    unfolding find_missing3 ClientCredentials_init_missing
    by (simp only: split: if_splits) auto
next
  assume "find (\<lambda>k. data k = None) [''access_token'', ''token_type'', ''expires_in'', ''scope'']
        = Some k'"
  then show "UserCredentials_init data cid cs now = Inl (KeyError k')"
    unfolding find_missing4 UserCredentials_init_missing
    by (simp only: split: if_splits) auto
next
  show "ClientCredentials_init data cid cs now \<noteq> Inl ValidationError"
    using ClientCredentials_init_error [of data cid cs now ValidationError] by blast
next
  show "UserCredentials_init data cid cs now \<noteq> Inl ValidationError"
    using UserCredentials_init_error [of data cid cs now ValidationError] by blast
qed

theorem init_missing_field_KeyError_witness:
  "ClientCredentials_init no_expiry_payload ''id'' ''secret'' 500 = Inl (KeyError ''expires_in'') \<and>
   UserCredentials_init client_payload ''id'' ''secret'' 500 = Inl (KeyError ''scope'')"
  using init_missing_field_KeyError
    [where data = no_expiry_payload and k = "''expires_in''" and k' = "''expires_in''"
      and cid = "''id''" and cs = "''secret''" and now = 500]
    init_missing_field_KeyError
    [where data = client_payload and k = "''scope''" and k' = "''scope''"
      and cid = "''id''" and cs = "''secret''" and now = 500]
  by (simp add: no_expiry_payload_def client_payload_def)

section \<open>A lifetime that is not positive\<close>

lemma ClientCredentials_stale:
  "cc_last_authorized_time c \<le> now \<Longrightarrow> num_of (cc_expires_in c) = Some e \<Longrightarrow> e \<le> 0 \<Longrightarrow>
   fst (ClientCredentials_is_expired now c) = Inr True"
  using float_sub_nonneg [of "cc_last_authorized_time c" now]
  by (auto simp add: ClientCredentials_is_expired_def ClientCredentials_expires_in_def
      float_ge_num)

lemma UserCredentials_stale:
  "uc_last_authorized_time u \<le> now \<Longrightarrow> num_of (uc_expires_in u) = Some e \<Longrightarrow> e \<le> 0 \<Longrightarrow>
   fst (UserCredentials_is_expired now u) = Inr True"
  using float_sub_nonneg [of "uc_last_authorized_time u" now]
  by (auto simp add: UserCredentials_is_expired_def UserCredentials_expires_in_def
      float_ge_num)

text \<open>
  C9. A record constructed at time \<open>made\<close> whose \<open>expires_in\<close> is a number that is zero
  or negative is expired at every time \<open>now\<close> with \<open>made \<le> now\<close>, the instant of
  construction included, for both classes and for the constructor as for the
  factories.
\<close>

theorem nonpositive_lifetime_expired:
  "(ClientCredentials_init data cid cs made = Inr c \<and>
      num_of (cc_expires_in c) = Some e \<and> e \<le> 0 \<and> made \<le> now \<longrightarrow>
      fst (ClientCredentials_is_expired now c) = Inr True) \<and>
   (ClientCredentials_from_client_secret cid cs session made = Inr c \<and>
      num_of (cc_expires_in c) = Some e \<and> e \<le> 0 \<and> made \<le> now \<longrightarrow>
      fst (ClientCredentials_is_expired now c) = Inr True) \<and>
   (UserCredentials_init data cid cs made = Inr u \<and>
      num_of (uc_expires_in u) = Some e \<and> e \<le> 0 \<and> made \<le> now \<longrightarrow>
      fst (UserCredentials_is_expired now u) = Inr True) \<and>
   (UserCredentials_from_refresh_token cid cs session rt made = Inr u \<and>
      num_of (uc_expires_in u) = Some e \<and> e \<le> 0 \<and> made \<le> now \<longrightarrow>
      fst (UserCredentials_is_expired now u) = Inr True)"
proof (intro conjI impI; elim conjE)
  assume "ClientCredentials_init data cid cs made = Inr c"
    and e: "num_of (cc_expires_in c) = Some e" "e \<le> 0" "made \<le> now"
  from ClientCredentials_init_clock [OF this(1)] e
  show "fst (ClientCredentials_is_expired now c) = Inr True"
    by (simp add: ClientCredentials_stale)
next
  assume "ClientCredentials_from_client_secret cid cs session made = Inr c"
    and e: "num_of (cc_expires_in c) = Some e" "e \<le> 0" "made \<le> now"
  from from_client_secret_clock [OF this(1)] e
  show "fst (ClientCredentials_is_expired now c) = Inr True"
    by (simp add: ClientCredentials_stale)
next
  assume "UserCredentials_init data cid cs made = Inr u"
    and e: "num_of (uc_expires_in u) = Some e" "e \<le> 0" "made \<le> now"
  from UserCredentials_init_clock [OF this(1)] e
  show "fst (UserCredentials_is_expired now u) = Inr True"
    by (simp add: UserCredentials_stale)
next
  assume "UserCredentials_from_refresh_token cid cs session rt made = Inr u"
    and e: "num_of (uc_expires_in u) = Some e" "e \<le> 0" "made \<le> now"
  from from_refresh_token_clock [OF this(1)] e
  show "fst (UserCredentials_is_expired now u) = Inr True"
    by (simp add: UserCredentials_stale)
qed

lemma dead_client_made:
  "ClientCredentials_init zero_lifetime_payload ''id'' ''secret'' 500 = Inr dead_client \<and>
   ClientCredentials_from_client_secret ''id'' ''secret''
       (answering 200 (JObj zero_lifetime_payload)) 500
     = Inr dead_client"
  by (simp add: ClientCredentials_init_def ClientCredentials_from_client_secret_def Let_def
      error_check_def answering_def zero_lifetime_payload_def dict_get_def dead_client_def)

lemma dead_user_made:
  "UserCredentials_init zero_lifetime_payload ''id'' ''secret'' 500 = Inr dead_user"
  by (simp add: UserCredentials_init_def zero_lifetime_payload_def dict_get_def dead_user_def)

theorem nonpositive_lifetime_expired_witness:
  "ClientCredentials_init zero_lifetime_payload ''id'' ''secret'' 500 = Inr dead_client \<and>
   fst (ClientCredentials_is_expired 500 dead_client) = Inr True \<and>
   UserCredentials_init zero_lifetime_payload ''id'' ''secret'' 500 = Inr dead_user \<and>
   fst (UserCredentials_is_expired 500 dead_user) = Inr True"
  using dead_client_made dead_user_made
    nonpositive_lifetime_expired
    [where data = zero_lifetime_payload and cid = "''id''" and cs = "''secret''" and made = 500
      and now = 500 and c = dead_client and u = dead_user and e = 0
      and session = "answering 200 (JObj zero_lifetime_payload)" and rt = "''RT1''"]
  by (simp add: dead_client_def dead_user_def)

section \<open>The client identifiers\<close>

lemma ClientCredentials_call_frame:
  "cc_client_id (ClientCredentials_call x c) = cc_client_id c \<and>
   cc_client_secret (ClientCredentials_call x c) = cc_client_secret c"
  by (cases x) (simp_all add: ClientCredentials_is_expired_def ClientCredentials_refresh_frame)

lemma UserCredentials_call_frame:
  "uc_client_id (UserCredentials_call x u) = uc_client_id u \<and>
   uc_client_secret (UserCredentials_call x u) = uc_client_secret u"
  by (cases x) (simp_all add: UserCredentials_is_expired_def UserCredentials_refresh_frame)

lemma ClientCredentials_run_frame:
  "cc_client_id (ClientCredentials_run xs c) = cc_client_id c \<and>
   cc_client_secret (ClientCredentials_run xs c) = cc_client_secret c"
proof (induction xs arbitrary: c)
  case Nil
  show ?case by simp
next
  case (Cons x xs)
  from Cons.IH [of "ClientCredentials_call x c"] ClientCredentials_call_frame [of x c]
  show ?case by simp
qed

lemma UserCredentials_run_frame:
  "uc_client_id (UserCredentials_run xs u) = uc_client_id u \<and>
   uc_client_secret (UserCredentials_run xs u) = uc_client_secret u"
proof (induction xs arbitrary: u)
  case Nil
  show ?case by simp
next
  case (Cons x xs)
  from Cons.IH [of "UserCredentials_call x u"] UserCredentials_call_frame [of x u]
  show ?case by simp
qed

text \<open>
  C10. The constructor stores the \<open>client_id\<close> and \<open>client_secret\<close> it is given, and no
  later call changes them: after \<open>is_expired()\<close>, after \<open>refresh\<close> whether it returns
  or raises (\<open>AuthenticationError\<close>, \<open>AttributeError\<close> or \<open>KeyError\<close>), and after any sequence of such calls,
  both fields are what they were, for both classes.
\<close>

theorem client_identifiers_never_modified:
  "cc_client_id (snd (ClientCredentials_is_expired now c)) = cc_client_id c \<and>
   cc_client_secret (snd (ClientCredentials_is_expired now c)) = cc_client_secret c \<and>
   cc_client_id (snd (ClientCredentials_refresh session now c)) = cc_client_id c \<and>
   cc_client_secret (snd (ClientCredentials_refresh session now c)) = cc_client_secret c \<and>
   cc_client_id (ClientCredentials_run calls c) = cc_client_id c \<and>
   cc_client_secret (ClientCredentials_run calls c) = cc_client_secret c \<and>
   uc_client_id (snd (UserCredentials_is_expired now u)) = uc_client_id u \<and>
   uc_client_secret (snd (UserCredentials_is_expired now u)) = uc_client_secret u \<and>
   uc_client_id (snd (UserCredentials_refresh session now u)) = uc_client_id u \<and>
   uc_client_secret (snd (UserCredentials_refresh session now u)) = uc_client_secret u \<and>
   uc_client_id (UserCredentials_run calls u) = uc_client_id u \<and>
   uc_client_secret (UserCredentials_run calls u) = uc_client_secret u \<and>
   (ClientCredentials_init data cid cs now = Inr c \<longrightarrow>
      cc_client_id c = cid \<and> cc_client_secret c = cs) \<and>
   (UserCredentials_init data cid cs now = Inr u \<longrightarrow>
      uc_client_id u = cid \<and> uc_client_secret u = cs)"
  using ClientCredentials_init_clock [of data cid cs now c]
    UserCredentials_init_clock [of data cid cs now u]
  by (simp add: ClientCredentials_run_frame UserCredentials_run_frame
      ClientCredentials_refresh_frame UserCredentials_refresh_frame
      ClientCredentials_is_expired_def UserCredentials_is_expired_def)

theorem client_identifiers_never_modified_witness:
  "cc_client_id (ClientCredentials_run
       [Refresh (answering 200 (JObj client_payload)) 500, Is_expired 600,
        Refresh (answering 400 (JObj invalid_grant)) 700,
        Refresh (answering 200 (JObj no_expiry_payload)) 800, Refresh (answering 200 (JList [])) 900]
       new_client) = ''id'' \<and>
   cc_client_secret (ClientCredentials_run
       [Refresh (answering 200 (JObj client_payload)) 500, Is_expired 600,
        Refresh (answering 400 (JObj invalid_grant)) 700,
        Refresh (answering 200 (JObj no_expiry_payload)) 800, Refresh (answering 200 (JList [])) 900]
       new_client) = ''secret'' \<and>
   uc_client_id (UserCredentials_run
       [Refresh (answering 200 (JObj client_payload)) 500, Is_expired 600,
        Refresh (answering 400 (JObj invalid_grant)) 700,
        Refresh (answering 200 (JObj no_expiry_payload)) 800, Refresh (answering 200 (JList [])) 900]
       new_user) = ''id'' \<and>
   ClientCredentials_init client_payload ''id'' ''secret'' 500 = Inr new_client"
  using new_client_made
    client_identifiers_never_modified
    [where c = new_client and u = new_user and now = 500 and data = client_payload
      and cid = "''id''" and cs = "''secret''" and session = "answering 200 (JObj client_payload)"
      and calls = "[Refresh (answering 200 (JObj client_payload)) 500, Is_expired 600,
        Refresh (answering 400 (JObj invalid_grant)) 700,
        Refresh (answering 200 (JObj no_expiry_payload)) 800, Refresh (answering 200 (JList [])) 900]"]
  by (simp add: new_client_def new_user_def)

end
